theory Spec2Isabelle
  imports Main "HOL-Library.Word"
begin

section \<open>The IAM command module of the tunnel client (src/iam.cpp)\<close>

text \<open>
  The module sends five administrative CoAP requests over a connection it borrows, reads
  the response status code and prints what happened. This theory embeds its functions:
  the console and the connection are an explicit world that every function takes and
  returns, an exception is a value, and the confirmation loop, which reads standard input
  until it sees an answer, is a partial function whose value \<open>None\<close> means that it
  never returns.
\<close>

subsection \<open>The world: console, standard input, connection\<close>

text \<open>
  Every \<open>catch (...)\<close> of the module catches whatever is thrown and looks at nothing of
  it, so one value stands for all exceptions.
\<close>

datatype fault = Exception

text \<open>
  What the module does to the outside, in the order it does it: a statement writing to
  \<open>std::cout\<close> or \<open>std::cerr\<close> (with the whole text of the statement, \<open>std::endl\<close>
  being a newline), \<open>connection->createCoap(method, path)\<close>, and \<open>coap->execute()\<close> on
  the request object made for that method and path.
\<close>

datatype event =
    Cout string
  | Cerr string
  | CreateCoap string string
  | Execute string string

text \<open>
  An element of the decoded payload, as the loops use it: \<open>get<std::string>()\<close> returns
  the string of a string element and throws on every other element.
\<close>

datatype item = Str string | NotStr

text \<open>
  The collaborators, none of which is code of the module. \<open>stdin k\<close> is what the
  \<open>k\<close>-th formatted extraction \<open>std::cin >> answer\<close> finds: \<open>Some c\<close> when it stores the
  character \<open>c\<close> (formatted extraction skips white space, so these are the characters
  the operator types other than white space), \<open>None\<close> when the input has ended and the
  extraction fails; an extraction that waits for ever for an operator who types nothing is
  not modelled. The connection answers a request, named by its method and path:
  \<open>coap->execute()->waitForResult()\<close> returns or throws, \<open>getResponseStatusCode()\<close> gives
  an \<open>int\<close> (only compared and printed, never computed with: every C++ \<open>int\<close> is a HOL
  integer), \<open>getResponsePayload()\<close> gives bytes, and \<open>json::from_cbor\<close> decodes bytes
  into the elements a range-for loop visits, or throws. Every call returns or throws:
  the module sets no timeout, and a call that blocks for ever is not modelled.
  \<open>createCoap\<close>, which the module calls outside its \<open>try\<close> blocks, is taken to return,
  as the collaborator contract has it. \<open>torn\<close> is the number of operands of a list line
  already written when \<open>get<std::string>()\<close> is evaluated: the language fixes it to 3
  since C++17 (operands of \<open><<\<close> left to right) and leaves it to the compiler before.
\<close>

record env =
  stdin :: "nat \<Rightarrow> char option"
  waitForResult :: "string \<Rightarrow> string \<Rightarrow> fault + unit"
  getResponseStatusCode :: "string \<Rightarrow> string \<Rightarrow> fault + int"
  getResponsePayload :: "string \<Rightarrow> string \<Rightarrow> fault + nat list"
  from_cbor :: "nat list \<Rightarrow> fault + item list"
  torn :: nat

text \<open>
  The state that changes: how many characters have been extracted from \<open>std::cin\<close>, its
  \<open>failbit\<close>, and the events so far.
\<close>

record world =
  cin_pos :: nat
  failbit :: bool
  trace :: "event list"

definition cout :: "string \<Rightarrow> world \<Rightarrow> world" where
  "cout s w = w\<lparr>trace := trace w @ [Cout s]\<rparr>"

definition cerr :: "string \<Rightarrow> world \<Rightarrow> world" where
  "cerr s w = w\<lparr>trace := trace w @ [Cerr s]\<rparr>"

definition createCoap :: "string \<Rightarrow> string \<Rightarrow> world \<Rightarrow> world" where
  "createCoap method path w = w\<lparr>trace := trace w @ [CreateCoap method path]\<rparr>"

text \<open>
  \<open>std::cin >> answer\<close> for a \<open>char\<close>: on a stream that has failed it does nothing; at the
  end of input it sets \<open>failbit\<close> and leaves \<open>answer\<close> as it was; otherwise it stores the
  next character.
\<close>

definition cin_get :: "env \<Rightarrow> char \<Rightarrow> world \<Rightarrow> char \<times> world" where
  "cin_get e answer w =
     (if failbit w then (answer, w)
      else case stdin e (cin_pos w) of
             None \<Rightarrow> (answer, w\<lparr>failbit := True\<rparr>)
           | Some c \<Rightarrow> (c, w\<lparr>cin_pos := Suc (cin_pos w)\<rparr>))"

text \<open>\<open>std::cout << responseCode\<close> and \<open>std::cout << i++\<close>: an \<open>int\<close> in decimal.\<close>

function show_nat :: "nat \<Rightarrow> string" where
  "show_nat n =
     (if n < 10 then [''0123456789'' ! n]
      else show_nat (n div 10) @ [''0123456789'' ! (n mod 10)])"
  by pat_completeness auto
termination
  by (relation "measure (\<lambda>n. n)") auto

definition show_int :: "int \<Rightarrow> string" where
  "show_int i = (if i < 0 then CHR ''-'' # show_nat (nat (- i)) else show_nat (nat i))"

subsection \<open>Statements that may throw\<close>

text \<open>
  The body of a \<open>try\<close> block is a function from the world to the world it leaves and
  either the value it returns or the exception that ended it: what was printed before an
  exception stays printed.
\<close>

type_synonym 'a io = "world \<Rightarrow> (fault + 'a) \<times> world"

definition returns :: "'a \<Rightarrow> 'a io" where
  "returns x w = (Inr x, w)"

definition call :: "fault + 'a \<Rightarrow> 'a io" where
  "call r w = (r, w)"

definition act :: "(world \<Rightarrow> world) \<Rightarrow> unit io" where
  "act f w = (Inr (), f w)"

definition andthen :: "'a io \<Rightarrow> ('a \<Rightarrow> 'b io) \<Rightarrow> 'b io" where
  "andthen m f w = (case m w of (Inl x, w') \<Rightarrow> (Inl x, w') | (Inr a, w') \<Rightarrow> f a w')"

text \<open>\<open>coap->execute()->waitForResult()\<close> on the request made for a method and path.\<close>

definition execute :: "env \<Rightarrow> string \<Rightarrow> string \<Rightarrow> unit io" where
  "execute e method path =
     andthen (act (\<lambda>w. w\<lparr>trace := trace w @ [Execute method path]\<rparr>))
       (\<lambda>_. call (waitForResult e method path))"

subsection \<open>The module\<close>

text \<open>
  \<open>yn_prompt\<close>: a do-while loop. \<open>answer\<close> starts as 0; each round writes the message and
  extracts a character; the loop goes on while the stream has not failed and the answer is
  neither \<open>y\<close> nor \<open>n\<close>.
\<close>

partial_function (option) yn_loop ::
  "env \<Rightarrow> string \<Rightarrow> char \<Rightarrow> world \<Rightarrow> (char \<times> world) option" where
  "yn_loop e message answer w =
     (let (answer', w') = cin_get e answer (cout (message @ '' [y/n]: '') w)
      in if \<not> failbit w' \<and> answer' \<noteq> CHR ''y'' \<and> answer' \<noteq> CHR ''n''
         then yn_loop e message answer' w'
         else Some (answer', w'))"

declare yn_loop.simps [code]

definition yn_prompt :: "env \<Rightarrow> string \<Rightarrow> world \<Rightarrow> (bool \<times> world) option" where
  "yn_prompt e message w =
     map_option (\<lambda>(answer, w'). (answer = CHR ''y'', w')) (yn_loop e message (CHR 0x00) w)"

definition print_coap_error :: "string \<Rightarrow> int \<Rightarrow> world \<Rightarrow> world" where
  "print_coap_error path responseCode =
     cout (''The CoAP request to '' @ path @ '' returned response code: ''
           @ show_int responseCode @ ''\<newline>'')"

definition print_error_access_denied :: "world \<Rightarrow> world" where
  "print_error_access_denied =
     cout (''This is potentially due to insufficient privileges,\<newline>''
           @ ''check the IAM policies file if you are the owner of this device.''
           @ ''\<newline>'')"

text \<open>
  The two listing loops, \<open>for (auto &user : user_list)\<close> with \<open>int i = 1\<close>, differ in the
  text after the index only, which is the parameter \<open>label\<close>. One statement writes
  \<open>"["\<close>, \<open>i++\<close>, the label, the string and a newline; on an element that is not a string
  it throws after writing the first \<open>torn\<close> of its operands. The index is a 32-bit
  \<open>int\<close>, read as a signed number when printed; \<open>i++\<close> wraps in the model (in C++ the
  overflow, which takes \<open>2^31\<close> elements, is undefined).
\<close>

fun print_list :: "env \<Rightarrow> string \<Rightarrow> 32 word \<Rightarrow> item list \<Rightarrow> unit io" where
  "print_list e label i [] = returns ()"
| "print_list e label i (Str s # rest) =
     andthen (act (cout (''['' @ show_int (sint i) @ label @ s @ ''\<newline>'')))
       (\<lambda>_. print_list e label (i + 1) rest)"
| "print_list e label i (NotStr # rest) =
     andthen (act (cout (concat (take (torn e) [''['', show_int (sint i), label]))))
       (\<lambda>_. call (Inl Exception))"

definition list_users_try :: "env \<Rightarrow> string \<Rightarrow> bool io" where
  "list_users_try e path =
     andthen (execute e ''GET'' path) (\<lambda>_.
     andthen (call (getResponseStatusCode e ''GET'' path)) (\<lambda>responseCode.
       if responseCode = 205 then
         andthen (call (getResponsePayload e ''GET'' path)) (\<lambda>cbor.
         andthen (act (cout ''Listing all users...\<newline>'')) (\<lambda>_.
         andthen (call (from_cbor e cbor)) (\<lambda>user_list.
         andthen (print_list e ''] UserID: '' 1 user_list) (\<lambda>_.
         returns True))))
       else if responseCode = 403 then
         andthen (act (cout (''The request to list users ('' @ path @ '')''
                             @ '' was denied.'' @ ''\<newline>''))) (\<lambda>_.
         andthen (act print_error_access_denied) (\<lambda>_.
         returns False))
       else
         andthen (act (print_coap_error path responseCode)) (\<lambda>_.
         returns False)))"

definition list_users :: "env \<Rightarrow> world \<Rightarrow> bool \<times> world" where
  "list_users e w =
     (let path = ''/iam/users'' in
      case list_users_try e path (createCoap ''GET'' path w) of
        (Inr result, w') \<Rightarrow> (result, w')
      | (Inl _, w') \<Rightarrow> (False, cerr (''Cannot get IAM user list'' @ ''\<newline>'') w'))"

definition list_roles_try :: "env \<Rightarrow> string \<Rightarrow> bool io" where
  "list_roles_try e path =
     andthen (execute e ''GET'' path) (\<lambda>_.
     andthen (call (getResponseStatusCode e ''GET'' path)) (\<lambda>responseCode.
       if responseCode = 205 then
         andthen (call (getResponsePayload e ''GET'' path)) (\<lambda>cbor.
         andthen (act (cout ''Listing available roles...\<newline>'')) (\<lambda>_.
         andthen (call (from_cbor e cbor)) (\<lambda>role_list.
         andthen (print_list e '']: '' 1 role_list) (\<lambda>_.
         returns True))))
       else if responseCode = 403 then
         andthen (act (cout (''The request to list roles ('' @ path @ '')''
                             @ '' was denied.'' @ ''\<newline>''))) (\<lambda>_.
         andthen (act print_error_access_denied) (\<lambda>_.
         returns False))
       else
         andthen (act (print_coap_error path responseCode)) (\<lambda>_.
         returns False)))"

definition list_roles :: "env \<Rightarrow> world \<Rightarrow> bool \<times> world" where
  "list_roles e w =
     (let path = ''/iam/roles'' in
      case list_roles_try e path (createCoap ''GET'' path w) of
        (Inr result, w') \<Rightarrow> (result, w')
      | (Inl _, w') \<Rightarrow> (False, cerr (''Cannot get IAM role list'' @ ''\<newline>'') w'))"

definition add_role_to_user_try :: "env \<Rightarrow> string \<Rightarrow> bool io" where
  "add_role_to_user_try e path =
     andthen (execute e ''PUT'' path) (\<lambda>_.
     andthen (call (getResponseStatusCode e ''PUT'' path)) (\<lambda>responseCode.
       if responseCode = 201 then
         andthen (act (cout (''Success.'' @ ''\<newline>''))) (\<lambda>_.
         returns True)
       else if responseCode = 403 then
         andthen (act (cout (''The request was denied.'' @ ''\<newline>''))) (\<lambda>_.
         andthen (act print_error_access_denied) (\<lambda>_.
         returns False))
       else if responseCode = 500 then
         andthen (act (cout (''The request returned error 500.\<newline>''
                   @ ''Are you sure you typed in the right role id and user id?''
                   @ ''\<newline>''))) (\<lambda>_.
         returns False)
       else
         andthen (act (print_coap_error path responseCode)) (\<lambda>_.
         returns False)))"

definition add_role_to_user ::
  "env \<Rightarrow> string \<Rightarrow> string \<Rightarrow> world \<Rightarrow> (bool \<times> world) option" where
  \<open>add_role_to_user e user role w =
     (let path = ''/iam/users/'' @ user @ ''/roles/'' @ role;
          message = ''Add role "'' @ role @ ''" to user "'' @ user @ ''"? ''
      in case yn_prompt e message w of
           None \<Rightarrow> None
         | Some (yes, w1) \<Rightarrow>
             if yes then
               (case add_role_to_user_try e path (createCoap ''PUT'' path w1) of
                  (Inr status, w') \<Rightarrow> Some (status, w')
                | (Inl _, w') \<Rightarrow>
                    Some (False, cerr (''An unknown error occurred.'' @ ''\<newline>'') w'))
             else Some (True, cout (''Action cancelled.'' @ ''\<newline>'') w1))\<close>

text \<open>The status switch of \<open>remove_role_from_user\<close> has no \<open>default\<close> label.\<close>

definition remove_role_from_user_try :: "env \<Rightarrow> string \<Rightarrow> bool io" where
  "remove_role_from_user_try e path =
     andthen (execute e ''DELETE'' path) (\<lambda>_.
     andthen (call (getResponseStatusCode e ''DELETE'' path)) (\<lambda>responseCode.
       if responseCode = 202 then
         andthen (act (cout (''Success.'' @ ''\<newline>''))) (\<lambda>_.
         returns True)
       else if responseCode = 403 then
         andthen (act (cout (''The request to DELETE from '' @ path @ '' was denied.''
                             @ ''\<newline>''))) (\<lambda>_.
         andthen (act print_error_access_denied) (\<lambda>_.
         returns False))
       else if responseCode = 500 then
         andthen (act (cout (''The request returned error 500.\<newline>''
                   @ ''Are you sure you typed in the right role id and user id?''
                   @ ''\<newline>''))) (\<lambda>_.
         returns False)
       else returns False))"

definition remove_role_from_user ::
  "env \<Rightarrow> string \<Rightarrow> string \<Rightarrow> world \<Rightarrow> (bool \<times> world) option" where
  \<open>remove_role_from_user e user role w =
     (let path = ''/iam/users/'' @ user @ ''/roles/'' @ role;
          message = ''Remove role "'' @ role @ ''" from user "'' @ user @ ''"? ''
      in case yn_prompt e message w of
           None \<Rightarrow> None
         | Some (yes, w1) \<Rightarrow>
             if yes then
               (case remove_role_from_user_try e path (createCoap ''DELETE'' path w1) of
                  (Inr status, w') \<Rightarrow> Some (status, w')
                | (Inl _, w') \<Rightarrow>
                    Some (False, cerr (''An unknown error occurred.'' @ ''\<newline>'') w'))
             else Some (True, cout (''Action cancelled.'' @ ''\<newline>'') w1))\<close>

definition delete_user_try :: "env \<Rightarrow> string \<Rightarrow> bool io" where
  "delete_user_try e path =
     andthen (execute e ''DELETE'' path) (\<lambda>_.
     andthen (call (getResponseStatusCode e ''DELETE'' path)) (\<lambda>responseCode.
       if responseCode = 202 then
         andthen (act (cout (''Success.'' @ ''\<newline>''))) (\<lambda>_.
         returns True)
       else if responseCode = 403 then
         andthen (act (cout (''The request to DELETE from'' @ path @ ''was denied.''
                             @ ''\<newline>''))) (\<lambda>_.
         andthen (act print_error_access_denied) (\<lambda>_.
         returns False))
       else
         andthen (act (print_coap_error path responseCode)) (\<lambda>_.
         returns False)))"

definition delete_user :: "env \<Rightarrow> string \<Rightarrow> world \<Rightarrow> (bool \<times> world) option" where
  \<open>delete_user e user w =
     (let path = ''/iam/users/'' @ user;
          message = ''Delete user "'' @ user @ ''"? ''
      in case yn_prompt e message w of
           None \<Rightarrow> None
         | Some (yes, w1) \<Rightarrow>
             if yes then
               (case delete_user_try e path (createCoap ''DELETE'' path w1) of
                  (Inr status, w') \<Rightarrow> Some (status, w')
                | (Inl _, w') \<Rightarrow>
                    Some (False, cerr (''An unknown error occurred.'' @ ''\<newline>'') w'))
             else Some (True, cout (''Action cancelled.'' @ ''\<newline>'') w1))\<close>

subsection \<open>Notions for stating the properties\<close>

text \<open>
  The operator types the characters \<open>cs\<close> (white space apart) and the input ends.
\<close>

definition typed :: "string \<Rightarrow> nat \<Rightarrow> char option" where
  "typed cs k = (if k < length cs then Some (cs ! k) else None)"

text \<open>The prompt of \<open>yn_prompt\<close>, displayed \<open>n\<close> times.\<close>

definition prompts :: "string \<Rightarrow> nat \<Rightarrow> event list" where
  "prompts message n = replicate n (Cout (message @ '' [y/n]: ''))"

text \<open>
  \<open>others e w k\<close>: the stream has not failed and its next \<open>k\<close> characters are all
  other than \<open>y\<close> and \<open>n\<close>. The operator confirms after \<open>k\<close> such characters when the
  next one is \<open>y\<close>, and declines when it is \<open>n\<close> or when there is none (the input ends and
  the extraction fails); on a stream that had failed before, the only extraction attempted
  fails at once.
\<close>

definition others :: "env \<Rightarrow> world \<Rightarrow> nat \<Rightarrow> bool" where
  "others e w k \<longleftrightarrow>
     \<not> failbit w \<and>
     (\<forall>j<k. case stdin e (cin_pos w + j) of
               None \<Rightarrow> False
             | Some c \<Rightarrow> c \<noteq> CHR ''y'' \<and> c \<noteq> CHR ''n'')"

definition confirms :: "env \<Rightarrow> world \<Rightarrow> nat \<Rightarrow> bool" where
  "confirms e w k \<longleftrightarrow> others e w k \<and> stdin e (cin_pos w + k) = Some CHR ''y''"

definition declines :: "env \<Rightarrow> world \<Rightarrow> nat \<Rightarrow> bool" where
  "declines e w k \<longleftrightarrow>
     (if failbit w then k = 0
      else others e w k \<and>
           (stdin e (cin_pos w + k) = Some CHR ''n'' \<or> stdin e (cin_pos w + k) = None))"

text \<open>The request completes, with a status code.\<close>

definition responds :: "env \<Rightarrow> string \<Rightarrow> string \<Rightarrow> int \<Rightarrow> bool" where
  "responds e method path code \<longleftrightarrow>
     waitForResult e method path = Inr () \<and> getResponseStatusCode e method path = Inr code"

text \<open>Sending the request throws: in \<open>execute\<close>, or when the status code is read.\<close>

definition send_fails :: "env \<Rightarrow> string \<Rightarrow> string \<Rightarrow> bool" where
  "send_fails e method path \<longleftrightarrow>
     waitForResult e method path = Inl Exception \<or>
     waitForResult e method path = Inr () \<and>
       getResponseStatusCode e method path = Inl Exception"

text \<open>
  The requests executed and the request objects created in a trace, each as its method and
  path, in order.
\<close>

definition requests :: "event list \<Rightarrow> (string \<times> string) list" where
  "requests tr = concat (map (\<lambda>ev. case ev of Execute m p \<Rightarrow> [(m, p)] | _ \<Rightarrow> []) tr)"

definition created :: "event list \<Rightarrow> (string \<times> string) list" where
  "created tr = concat (map (\<lambda>ev. case ev of CreateCoap m p \<Rightarrow> [(m, p)] | _ \<Rightarrow> []) tr)"

text \<open>
  A listing as the specification words it: each string with its 1-based index, the element
  at position \<open>k\<close> (from 0) on the line numbered \<open>k + 1\<close>.
\<close>

definition entries :: "string \<Rightarrow> string list \<Rightarrow> event list" where
  "entries label ss =
     map (\<lambda>k. Cout (''['' @ show_int (int k + 1) @ label @ ss ! k @ ''\<newline>''))
       [0..<length ss]"

text \<open>
  A world in which nothing has happened, and collaborators for examples: the operator
  types \<open>answers\<close>, every request completes with the status code \<open>code\<close>, and the payload
  decodes to \<open>items\<close>; or every request throws.
\<close>

definition fresh :: world where
  "fresh = \<lparr>cin_pos = 0, failbit = False, trace = []\<rparr>"

definition scenario :: "string \<Rightarrow> int \<Rightarrow> item list \<Rightarrow> env" where
  "scenario answers code items =
     \<lparr>stdin = typed answers,
      waitForResult = (\<lambda>_ _. Inr ()),
      getResponseStatusCode = (\<lambda>_ _. Inr code),
      getResponsePayload = (\<lambda>_ _. Inr []),
      from_cbor = (\<lambda>_. Inr items),
      torn = 3\<rparr>"

definition unreachable :: "string \<Rightarrow> env" where
  "unreachable answers = (scenario answers 0 [])\<lparr>waitForResult := (\<lambda>_ _. Inl Exception)\<rparr>"

section \<open>Properties\<close>

subsection \<open>The confirmation loop\<close>

lemma others_Suc:
  assumes "others e w (Suc k)"
  shows "\<exists>c. stdin e (cin_pos w) = Some c \<and> c \<noteq> CHR ''y'' \<and> c \<noteq> CHR ''n'' \<and>
       others e (w\<lparr>cin_pos := Suc (cin_pos w), trace := t\<rparr>) k"
proof -
  from assms have nf: "\<not> failbit w"
    and all: "\<And>j. j < Suc k \<Longrightarrow>
      (case stdin e (cin_pos w + j) of None \<Rightarrow> False
       | Some c \<Rightarrow> c \<noteq> CHR ''y'' \<and> c \<noteq> CHR ''n'')"
    by (simp_all add: others_def)
  from all [of 0] obtain c where
    c: "stdin e (cin_pos w) = Some c" "c \<noteq> CHR ''y''" "c \<noteq> CHR ''n''"
    by (auto split: option.splits)
  have "others e (w\<lparr>cin_pos := Suc (cin_pos w), trace := t\<rparr>) k"
    using nf all [of "Suc j" for j] by (simp add: others_def)
  with c show ?thesis by blast
qed

text \<open>One round of the loop on a character that is neither \<open>y\<close> nor \<open>n\<close>.\<close>

lemma yn_loop_round:
  assumes "\<not> failbit w" and "stdin e (cin_pos w) = Some d"
    and "d \<noteq> CHR ''y''" and "d \<noteq> CHR ''n''"
  shows "yn_loop e message answer w =
         yn_loop e message d
           (w\<lparr>cin_pos := Suc (cin_pos w),
              trace := trace w @ [Cout (message @ '' [y/n]: '')]\<rparr>)"
  using assms by (subst yn_loop.simps, cases w) (simp add: cin_get_def cout_def)

lemma yn_loop_stop:
  "others e w k \<Longrightarrow> stdin e (cin_pos w + k) = Some c \<Longrightarrow> c = CHR ''y'' \<or> c = CHR ''n'' \<Longrightarrow>
   yn_loop e message answer w =
     Some (c, w\<lparr>cin_pos := cin_pos w + Suc k, trace := trace w @ prompts message (Suc k)\<rparr>)"
proof (induction k arbitrary: w answer)
  case 0
  then show ?case
    by (subst yn_loop.simps) (auto simp: cin_get_def cout_def others_def prompts_def)
next
  case (Suc k)
  let ?t = "trace w @ [Cout (message @ '' [y/n]: '')]"
  let ?w = "w\<lparr>cin_pos := Suc (cin_pos w), trace := ?t\<rparr>"
  from others_Suc [OF Suc.prems(1), of ?t] obtain d where
    d: "stdin e (cin_pos w) = Some d" "d \<noteq> CHR ''y''" "d \<noteq> CHR ''n''" and o: "others e ?w k"
    by blast
  have nf: "\<not> failbit w" using Suc.prems(1) by (simp add: others_def)
  have step: "yn_loop e message answer w = yn_loop e message d ?w"
    using nf d by (rule yn_loop_round)
  have "stdin e (cin_pos ?w + k) = Some c" using Suc.prems(2) by simp
  from Suc.IH [OF o this Suc.prems(3), of d] step show ?case
    by (simp add: prompts_def replicate_append_same)
qed

lemma yn_loop_fail:
  "others e w k \<Longrightarrow> stdin e (cin_pos w + k) = None \<Longrightarrow> answer \<noteq> CHR ''y'' \<Longrightarrow>
   \<exists>a. a \<noteq> CHR ''y'' \<and> yn_loop e message answer w =
     Some (a, w\<lparr>cin_pos := cin_pos w + k, failbit := True,
               trace := trace w @ prompts message (Suc k)\<rparr>)"
proof (induction k arbitrary: w answer)
  case 0
  then show ?case
    by (subst yn_loop.simps) (auto simp: cin_get_def cout_def others_def prompts_def)
next
  case (Suc k)
  let ?t = "trace w @ [Cout (message @ '' [y/n]: '')]"
  let ?w = "w\<lparr>cin_pos := Suc (cin_pos w), trace := ?t\<rparr>"
  from others_Suc [OF Suc.prems(1), of ?t] obtain d where
    d: "stdin e (cin_pos w) = Some d" "d \<noteq> CHR ''y''" "d \<noteq> CHR ''n''" and o: "others e ?w k"
    by blast
  have nf: "\<not> failbit w" using Suc.prems(1) by (simp add: others_def)
  have step: "yn_loop e message answer w = yn_loop e message d ?w"
    using nf d by (rule yn_loop_round)
  have "stdin e (cin_pos ?w + k) = None" using Suc.prems(2) by simp
  from Suc.IH [OF o this d(2)] step show ?case
    by (simp add: prompts_def replicate_append_same)
qed

lemma yn_loop_failed:
  "failbit w \<Longrightarrow> yn_loop e message answer w = Some (answer, cout (message @ '' [y/n]: '') w)"
  by (subst yn_loop.simps) (simp add: cin_get_def cout_def)

text \<open>
  The loop does not return on an input that never ends and holds no \<open>y\<close> and no \<open>n\<close>:
  by the induction principle of the least fixed point.
\<close>

lemma yn_loop_forever:
  assumes "yn_loop e message answer w = Some r"
  shows "\<not> (\<forall>k. others e w k)"
proof (rule yn_loop.raw_induct
    [where P = "\<lambda>e message answer w r. \<not> (\<forall>k. others e w k)", OF _ assms])
  fix yn_loop' e message answer w r
  assume IH: "\<And>e message answer w r. yn_loop' e message answer w = Some r \<Longrightarrow>
                \<not> (\<forall>k. others e w k)"
    and body: "(let (answer', w') = cin_get e answer (cout (message @ '' [y/n]: '') w)
                in if \<not> failbit w' \<and> answer' \<noteq> CHR ''y'' \<and> answer' \<noteq> CHR ''n''
                   then yn_loop' e message answer' w' else Some (answer', w')) = Some r"
  show "\<not> (\<forall>k. others e w k)"
  proof
    assume all: "\<forall>k. others e w k"
    let ?t = "trace w @ [Cout (message @ '' [y/n]: '')]"
    let ?w = "w\<lparr>cin_pos := Suc (cin_pos w), trace := ?t\<rparr>"
    from all have "others e w (Suc 0)" by blast
    from others_Suc [OF this, of ?t] obtain d where
      d: "stdin e (cin_pos w) = Some d" "d \<noteq> CHR ''y''" "d \<noteq> CHR ''n''" by blast
    have nf: "\<not> failbit w" using all by (simp add: others_def)
    have all': "\<forall>k. others e ?w k"
    proof
      fix k from all have "others e w (Suc k)" by blast
      from others_Suc [OF this, of ?t] show "others e ?w k" by blast
    qed
    from body d nf have "yn_loop' e message d ?w = Some r"
      by (cases w) (simp add: cin_get_def cout_def)
    from IH [OF this] all' show False by blast
  qed
qed

lemma yn_prompt_forever:
  assumes "\<forall>k. others e w k"
  shows "yn_prompt e message w = None"
proof (cases "yn_loop e message (CHR 0x00) w")
  case None
  then show ?thesis by (simp add: yn_prompt_def)
next
  case (Some r)
  from yn_loop_forever [OF this] assms show ?thesis by blast
qed

lemma yn_prompt_confirms:
  assumes "confirms e w k"
  shows "yn_prompt e message w =
    Some (True, w\<lparr>cin_pos := cin_pos w + Suc k, trace := trace w @ prompts message (Suc k)\<rparr>)"
  using assms yn_loop_stop [of e w k "CHR ''y''" message "CHR 0x00"]
  by (simp add: confirms_def yn_prompt_def)

lemma yn_prompt_declines:
  assumes "declines e w k"
  shows "\<exists>w1. yn_prompt e message w = Some (False, w1) \<and>
              trace w1 = trace w @ prompts message (Suc k)"
proof (cases "failbit w")
  case True
  with assms show ?thesis
    by (simp add: declines_def yn_prompt_def yn_loop_failed cout_def prompts_def)
next
  case False
  with assms have o: "others e w k"
    and s: "stdin e (cin_pos w + k) = Some CHR ''n'' \<or> stdin e (cin_pos w + k) = None"
    by (simp_all add: declines_def)
  from s show ?thesis
  proof
    assume "stdin e (cin_pos w + k) = Some CHR ''n''"
    from yn_loop_stop [OF o this, of message "CHR 0x00"] show ?thesis
      by (simp add: yn_prompt_def)
  next
    assume "stdin e (cin_pos w + k) = None"
    from yn_loop_fail [OF o this, of "CHR 0x00" message] show ?thesis
      by (auto simp: yn_prompt_def)
  qed
qed

text \<open>
  Every input is of one of three kinds: the operator confirms, the operator declines, or
  the characters never end and none is \<open>y\<close> or \<open>n\<close>.
\<close>

lemma answer_cases:
  "(\<exists>k. confirms e w k) \<or> (\<exists>k. declines e w k) \<or> (\<forall>k. others e w k)"
proof (cases "\<forall>k. others e w k")
  case True
  then show ?thesis by blast
next
  case False
  then obtain m where m: "\<not> others e w m" by blast
  show ?thesis
  proof (cases "failbit w")
    case True
    then have "declines e w 0" by (simp add: declines_def)
    then show ?thesis by blast
  next
    case nf: False
    define k where "k = (LEAST m. \<not> others e w m)"
    have nk: "\<not> others e w k" unfolding k_def using m by (rule LeastI)
    have below: "\<And>j. j < k \<Longrightarrow> others e w j"
      unfolding k_def using not_less_Least by blast
    have "others e w 0" using nf by (simp add: others_def)
    with nk have "k \<noteq> 0" by (cases k) auto
    then obtain k' where k': "k = Suc k'" by (cases k) auto
    have o: "others e w k'" using below k' by simp
    have stop: "\<not> (case stdin e (cin_pos w + k') of None \<Rightarrow> False
                      | Some c \<Rightarrow> c \<noteq> CHR ''y'' \<and> c \<noteq> CHR ''n'')"
    proof
      assume a: "case stdin e (cin_pos w + k') of None \<Rightarrow> False
                 | Some c \<Rightarrow> c \<noteq> CHR ''y'' \<and> c \<noteq> CHR ''n''"
      have "others e w (Suc k')"
        unfolding others_def
      proof (intro conjI allI impI)
        show "\<not> failbit w" by (rule nf)
      next
        fix j assume "j < Suc k'"
        then have "j < k' \<or> j = k'" by auto
        then show "case stdin e (cin_pos w + j) of None \<Rightarrow> False
                   | Some c \<Rightarrow> c \<noteq> CHR ''y'' \<and> c \<noteq> CHR ''n''"
          using o a by (auto simp: others_def)
      qed
      with nk k' show False by simp
    qed
    then have "confirms e w k' \<or> declines e w k'"
      using o nf by (auto simp: confirms_def declines_def split: option.splits)
    then show ?thesis by blast
  qed
qed

lemma yn_prompt_fails:
  assumes "others e w k" and "stdin e (cin_pos w + k) = None"
  shows "yn_prompt e message w =
    Some (False, w\<lparr>cin_pos := cin_pos w + k, failbit := True,
                   trace := trace w @ prompts message (Suc k)\<rparr>)"
  using yn_loop_fail [OF assms, of "CHR 0x00" message]
  by (auto simp: yn_prompt_def)

lemma yn_prompt_no:
  assumes "others e w k" and "stdin e (cin_pos w + k) = Some CHR ''n''"
  shows "yn_prompt e message w =
    Some (False, w\<lparr>cin_pos := cin_pos w + Suc k,
                   trace := trace w @ prompts message (Suc k)\<rparr>)"
  using yn_loop_stop [OF assms, of message "CHR 0x00"]
  by (simp add: yn_prompt_def)

lemma yn_prompt_failed:
  assumes "failbit w"
  shows "yn_prompt e message w = Some (False, w\<lparr>trace := trace w @ prompts message 1\<rparr>)"
  using assms by (simp add: yn_prompt_def yn_loop_failed cout_def prompts_def)

lemma yn_prompt_True_confirms:
  assumes "yn_prompt e message w = Some (True, w')"
  shows "\<exists>k. confirms e w k"
proof -
  from assms obtain r where "yn_loop e message (CHR 0x00) w = Some r"
    by (auto simp: yn_prompt_def)
  then have "\<not> (\<forall>k. others e w k)" by (rule yn_loop_forever)
  with answer_cases [of e w] have "(\<exists>k. confirms e w k) \<or> (\<exists>k. declines e w k)" by blast
  then show ?thesis
  proof
    assume "\<exists>k. declines e w k"
    then obtain k where "declines e w k" ..
    from yn_prompt_declines [OF this, of message] assms show ?thesis by auto
  qed
qed

text \<open>
  Claim C8. \<open>yn_prompt\<close> displays the message followed by \<open>" [y/n]: "\<close> and reads one
  character, again and again, until the character is \<open>y\<close> or \<open>n\<close> or the stream fails.
  When the stream has not failed and \<open>k\<close> characters other than \<open>y\<close> and \<open>n\<close> come
  first, the prompt is displayed \<open>k + 1\<close> times and the result is true if the next
  character is \<open>y\<close>, false if it is \<open>n\<close>, and false if there is none and the extraction
  fails; on a stream that had failed before, one prompt is displayed and the result is
  false. The result is true only when a \<open>y\<close> was read.
\<close>

theorem yn_prompt_contract:
  "(others e w k \<and> stdin e (cin_pos w + k) = Some CHR ''y'' \<longrightarrow>
      yn_prompt e message w =
        Some (True, w\<lparr>cin_pos := cin_pos w + Suc k,
                      trace := trace w @ replicate (Suc k) (Cout (message @ '' [y/n]: ''))\<rparr>)) \<and>
   (others e w k \<and> stdin e (cin_pos w + k) = Some CHR ''n'' \<longrightarrow>
      yn_prompt e message w =
        Some (False, w\<lparr>cin_pos := cin_pos w + Suc k,
                       trace := trace w @ replicate (Suc k) (Cout (message @ '' [y/n]: ''))\<rparr>)) \<and>
   (others e w k \<and> stdin e (cin_pos w + k) = None \<longrightarrow>
      yn_prompt e message w =
        Some (False, w\<lparr>cin_pos := cin_pos w + k, failbit := True,
                       trace := trace w @ replicate (Suc k) (Cout (message @ '' [y/n]: ''))\<rparr>)) \<and>
   (failbit w \<longrightarrow>
      yn_prompt e message w =
        Some (False, w\<lparr>trace := trace w @ [Cout (message @ '' [y/n]: '')]\<rparr>)) \<and>
   (yn_prompt e message w = Some (True, w') \<longrightarrow>
      \<not> failbit w \<and> (\<exists>j. others e w j \<and> stdin e (cin_pos w + j) = Some CHR ''y''))"
proof (intro conjI impI)
  assume "others e w k \<and> stdin e (cin_pos w + k) = Some CHR ''y''"
  then have "confirms e w k" by (simp add: confirms_def)
  then show "yn_prompt e message w =
        Some (True, w\<lparr>cin_pos := cin_pos w + Suc k,
                      trace := trace w @ replicate (Suc k) (Cout (message @ '' [y/n]: ''))\<rparr>)"
    by (simp add: yn_prompt_confirms prompts_def)
next
  assume "others e w k \<and> stdin e (cin_pos w + k) = Some CHR ''n''"
  then show "yn_prompt e message w =
        Some (False, w\<lparr>cin_pos := cin_pos w + Suc k,
                       trace := trace w @ replicate (Suc k) (Cout (message @ '' [y/n]: ''))\<rparr>)"
    using yn_prompt_no [of e w k message] by (simp add: prompts_def)
next
  assume "others e w k \<and> stdin e (cin_pos w + k) = None"
  then show "yn_prompt e message w =
        Some (False, w\<lparr>cin_pos := cin_pos w + k, failbit := True,
                       trace := trace w @ replicate (Suc k) (Cout (message @ '' [y/n]: ''))\<rparr>)"
    using yn_prompt_fails [of e w k message] by (simp add: prompts_def)
next
  assume "failbit w"
  then show "yn_prompt e message w =
        Some (False, w\<lparr>trace := trace w @ [Cout (message @ '' [y/n]: '')]\<rparr>)"
    by (simp add: yn_prompt_failed prompts_def)
next
  assume r: "yn_prompt e message w = Some (True, w')"
  from yn_prompt_True_confirms [OF r] show "\<not> failbit w"
    by (auto simp: confirms_def others_def)
next
  assume r: "yn_prompt e message w = Some (True, w')"
  from yn_prompt_True_confirms [OF r]
  show "\<exists>j. others e w j \<and> stdin e (cin_pos w + j) = Some CHR ''y''"
    by (simp add: confirms_def)
qed

theorem yn_prompt_contract_witness:
  "yn_prompt (scenario ''xy'' 0 []) ''Go?'' fresh =
     Some (True, \<lparr>cin_pos = 2, failbit = False,
                  trace = [Cout ''Go? [y/n]: '', Cout ''Go? [y/n]: '']\<rparr>) \<and>
   yn_prompt (scenario ''n'' 0 []) ''Go?'' fresh =
     Some (False, \<lparr>cin_pos = 1, failbit = False, trace = [Cout ''Go? [y/n]: '']\<rparr>) \<and>
   yn_prompt (scenario ''x'' 0 []) ''Go?'' fresh =
     Some (False, \<lparr>cin_pos = 1, failbit = True,
                   trace = [Cout ''Go? [y/n]: '', Cout ''Go? [y/n]: '']\<rparr>) \<and>
   yn_prompt (scenario ''y'' 0 []) ''Go?'' (fresh\<lparr>failbit := True\<rparr>) =
     Some (False, \<lparr>cin_pos = 0, failbit = True, trace = [Cout ''Go? [y/n]: '']\<rparr>) \<and>
   (\<exists>j. others (scenario ''xy'' 0 []) fresh j \<and>
        stdin (scenario ''xy'' 0 []) (cin_pos fresh + j) = Some CHR ''y'')"
proof -
  have first: "yn_prompt (scenario ''xy'' 0 []) ''Go?'' fresh =
     Some (True, \<lparr>cin_pos = 2, failbit = False,
                  trace = [Cout ''Go? [y/n]: '', Cout ''Go? [y/n]: '']\<rparr>)"
    using yn_prompt_contract [of "scenario ''xy'' 0 []" fresh 1 "''Go?''"]
    by (simp add: others_def scenario_def typed_def fresh_def)
  from yn_prompt_contract [of "scenario ''xy'' 0 []" fresh 1 "''Go?''"
      "\<lparr>cin_pos = 2, failbit = False, trace = [Cout ''Go? [y/n]: '', Cout ''Go? [y/n]: '']\<rparr>"]
    first
  have last: "\<exists>j. others (scenario ''xy'' 0 []) fresh j \<and>
        stdin (scenario ''xy'' 0 []) (cin_pos fresh + j) = Some CHR ''y''"
    by blast
  from first last show ?thesis
    using yn_prompt_contract [of "scenario ''n'' 0 []" fresh 0 "''Go?''"]
      yn_prompt_contract [of "scenario ''x'' 0 []" fresh 1 "''Go?''"]
      yn_prompt_contract [of "scenario ''y'' 0 []" "fresh\<lparr>failbit := True\<rparr>" 0 "''Go?''"]
    by (simp add: others_def scenario_def typed_def fresh_def)
qed

subsection \<open>The operations\<close>

lemmas io_defs = andthen_def act_def call_def returns_def execute_def cout_def cerr_def
  createCoap_def print_coap_error_def print_error_access_denied_def

lemma requests_simps [simp]:
  "requests [] = []"
  "requests (Cout s # tr) = requests tr"
  "requests (Cerr s # tr) = requests tr"
  "requests (CreateCoap m p # tr) = requests tr"
  "requests (Execute m p # tr) = (m, p) # requests tr"
  "requests (tr @ tr') = requests tr @ requests tr'"
  by (simp_all add: requests_def)

lemma created_simps [simp]:
  "created [] = []"
  "created (Cout s # tr) = created tr"
  "created (Cerr s # tr) = created tr"
  "created (CreateCoap m p # tr) = (m, p) # created tr"
  "created (Execute m p # tr) = created tr"
  "created (tr @ tr') = created tr @ created tr'"
  by (simp_all add: created_def)

lemma requests_prompts [simp]: "requests (prompts message n) = []"
  by (induction n) (simp_all add: prompts_def)

lemma created_prompts [simp]: "created (prompts message n) = []"
  by (induction n) (simp_all add: prompts_def)

lemma add_role_to_user_confirmed:
  assumes "confirms e w k"
  shows \<open>add_role_to_user e user role w =
    (case add_role_to_user_try e (''/iam/users/'' @ user @ ''/roles/'' @ role)
       (w\<lparr>cin_pos := cin_pos w + Suc k,
          trace := trace w
            @ prompts (''Add role "'' @ role @ ''" to user "'' @ user @ ''"? '') (Suc k)
            @ [CreateCoap ''PUT'' (''/iam/users/'' @ user @ ''/roles/'' @ role)]\<rparr>) of
       (Inr status, w') \<Rightarrow> Some (status, w')
     | (Inl _, w') \<Rightarrow> Some (False, cerr (''An unknown error occurred.'' @ ''\<newline>'') w'))\<close>
  by (simp add: add_role_to_user_def yn_prompt_confirms [OF assms] createCoap_def Let_def)

lemma remove_role_from_user_confirmed:
  assumes "confirms e w k"
  shows \<open>remove_role_from_user e user role w =
    (case remove_role_from_user_try e (''/iam/users/'' @ user @ ''/roles/'' @ role)
       (w\<lparr>cin_pos := cin_pos w + Suc k,
          trace := trace w
            @ prompts (''Remove role "'' @ role @ ''" from user "'' @ user @ ''"? '') (Suc k)
            @ [CreateCoap ''DELETE'' (''/iam/users/'' @ user @ ''/roles/'' @ role)]\<rparr>) of
       (Inr status, w') \<Rightarrow> Some (status, w')
     | (Inl _, w') \<Rightarrow> Some (False, cerr (''An unknown error occurred.'' @ ''\<newline>'') w'))\<close>
  by (simp add: remove_role_from_user_def yn_prompt_confirms [OF assms] createCoap_def Let_def)

lemma delete_user_confirmed:
  assumes "confirms e w k"
  shows \<open>delete_user e user w =
    (case delete_user_try e (''/iam/users/'' @ user)
       (w\<lparr>cin_pos := cin_pos w + Suc k,
          trace := trace w @ prompts (''Delete user "'' @ user @ ''"? '') (Suc k)
            @ [CreateCoap ''DELETE'' (''/iam/users/'' @ user)]\<rparr>) of
       (Inr status, w') \<Rightarrow> Some (status, w')
     | (Inl _, w') \<Rightarrow> Some (False, cerr (''An unknown error occurred.'' @ ''\<newline>'') w'))\<close>
  by (simp add: delete_user_def yn_prompt_confirms [OF assms] createCoap_def Let_def)

lemma add_role_to_user_declined:
  assumes "declines e w k"
  shows \<open>\<exists>w'. add_role_to_user e user role w = Some (True, w') \<and>
     trace w' = trace w
        @ prompts (''Add role "'' @ role @ ''" to user "'' @ user @ ''"? '') (Suc k)
        @ [Cout ''Action cancelled.\<newline>'']\<close>
  using yn_prompt_declines [OF assms,
      of \<open>''Add role "'' @ role @ ''" to user "'' @ user @ ''"? ''\<close>]
  by (auto simp: add_role_to_user_def cout_def)

lemma remove_role_from_user_declined:
  assumes "declines e w k"
  shows \<open>\<exists>w'. remove_role_from_user e user role w = Some (True, w') \<and>
     trace w' = trace w
        @ prompts (''Remove role "'' @ role @ ''" from user "'' @ user @ ''"? '') (Suc k)
        @ [Cout ''Action cancelled.\<newline>'']\<close>
  using yn_prompt_declines [OF assms,
      of \<open>''Remove role "'' @ role @ ''" from user "'' @ user @ ''"? ''\<close>]
  by (auto simp: remove_role_from_user_def cout_def)

lemma delete_user_declined:
  assumes "declines e w k"
  shows \<open>\<exists>w'. delete_user e user w = Some (True, w') \<and>
     trace w' = trace w @ prompts (''Delete user "'' @ user @ ''"? '') (Suc k)
        @ [Cout ''Action cancelled.\<newline>'']\<close>
  using yn_prompt_declines [OF assms, of \<open>''Delete user "'' @ user @ ''"? ''\<close>]
  by (auto simp: delete_user_def cout_def)

text \<open>
  Claim C2. When the operator declines the confirmation prompt, each of
  \<open>add_role_to_user\<close>, \<open>remove_role_from_user\<close> and \<open>delete_user\<close> prints
  \<open>"Action cancelled."\<close> and returns true, whatever the user and the role; after the
  prompts that line is all that happens: no request object is created and no request
  is executed.
\<close>

theorem declined_is_cancelled:
  assumes "declines e w k"
  shows \<open>(\<exists>w'. add_role_to_user e user role w = Some (True, w') \<and>
       trace w' = trace w
          @ prompts (''Add role "'' @ role @ ''" to user "'' @ user @ ''"? '') (Suc k)
          @ [Cout ''Action cancelled.\<newline>''] \<and>
       created (trace w') = created (trace w) \<and> requests (trace w') = requests (trace w)) \<and>
     (\<exists>w'. remove_role_from_user e user role w = Some (True, w') \<and>
       trace w' = trace w
          @ prompts (''Remove role "'' @ role @ ''" from user "'' @ user @ ''"? '') (Suc k)
          @ [Cout ''Action cancelled.\<newline>''] \<and>
       created (trace w') = created (trace w) \<and> requests (trace w') = requests (trace w)) \<and>
     (\<exists>w'. delete_user e user w = Some (True, w') \<and>
       trace w' = trace w @ prompts (''Delete user "'' @ user @ ''"? '') (Suc k)
          @ [Cout ''Action cancelled.\<newline>''] \<and>
       created (trace w') = created (trace w) \<and> requests (trace w') = requests (trace w))\<close>
proof (intro conjI)
  from add_role_to_user_declined [OF assms, of user role]
  show \<open>\<exists>w'. add_role_to_user e user role w = Some (True, w') \<and>
       trace w' = trace w
          @ prompts (''Add role "'' @ role @ ''" to user "'' @ user @ ''"? '') (Suc k)
          @ [Cout ''Action cancelled.\<newline>''] \<and>
       created (trace w') = created (trace w) \<and> requests (trace w') = requests (trace w)\<close>
    by auto
next
  from remove_role_from_user_declined [OF assms, of user role]
  show \<open>\<exists>w'. remove_role_from_user e user role w = Some (True, w') \<and>
       trace w' = trace w
          @ prompts (''Remove role "'' @ role @ ''" from user "'' @ user @ ''"? '') (Suc k)
          @ [Cout ''Action cancelled.\<newline>''] \<and>
       created (trace w') = created (trace w) \<and> requests (trace w') = requests (trace w)\<close>
    by auto
next
  from delete_user_declined [OF assms, of user]
  show \<open>\<exists>w'. delete_user e user w = Some (True, w') \<and>
       trace w' = trace w @ prompts (''Delete user "'' @ user @ ''"? '') (Suc k)
          @ [Cout ''Action cancelled.\<newline>''] \<and>
       created (trace w') = created (trace w) \<and> requests (trace w') = requests (trace w)\<close>
    by auto
qed

theorem declined_is_cancelled_witness:
  \<open>declines (scenario ''n'' 201 []) fresh 0 \<and>
   (\<exists>w'. add_role_to_user (scenario ''n'' 201 []) ''bob'' ''admin'' fresh = Some (True, w') \<and>
      trace w' = [Cout ''Add role "admin" to user "bob"?  [y/n]: '',
                  Cout ''Action cancelled.\<newline>'']) \<and>
   (\<exists>w'. remove_role_from_user (scenario ''n'' 201 []) ''bob'' ''admin'' fresh = Some (True, w') \<and>
      trace w' = [Cout ''Remove role "admin" from user "bob"?  [y/n]: '',
                  Cout ''Action cancelled.\<newline>'']) \<and>
   (\<exists>w'. delete_user (scenario ''n'' 201 []) ''bob'' fresh = Some (True, w') \<and>
      trace w' = [Cout ''Delete user "bob"?  [y/n]: '', Cout ''Action cancelled.\<newline>''])\<close>
proof -
  have d: "declines (scenario ''n'' 201 []) fresh 0"
    by (simp add: declines_def others_def scenario_def typed_def fresh_def)
  from declined_is_cancelled [OF d, of "''bob''" "''admin''"] d show ?thesis
    by (auto simp: prompts_def fresh_def)
qed

subsection \<open>Status codes\<close>

lemma list_users_denied:
  assumes "responds e ''GET'' ''/iam/users'' 403"
  shows "list_users e w = (False,
     w\<lparr>trace := trace w @
        [CreateCoap ''GET'' ''/iam/users'', Execute ''GET'' ''/iam/users'',
         Cout ''The request to list users (/iam/users) was denied.\<newline>'',
         Cout (''This is potentially due to insufficient privileges,\<newline>''
               @ ''check the IAM policies file if you are the owner of this device.\<newline>'')]\<rparr>)"
  using assms by (simp add: list_users_def list_users_try_def io_defs responds_def Let_def)

lemma list_roles_denied:
  assumes "responds e ''GET'' ''/iam/roles'' 403"
  shows "list_roles e w = (False,
     w\<lparr>trace := trace w @
        [CreateCoap ''GET'' ''/iam/roles'', Execute ''GET'' ''/iam/roles'',
         Cout ''The request to list roles (/iam/roles) was denied.\<newline>'',
         Cout (''This is potentially due to insufficient privileges,\<newline>''
               @ ''check the IAM policies file if you are the owner of this device.\<newline>'')]\<rparr>)"
  using assms by (simp add: list_roles_def list_roles_try_def io_defs responds_def Let_def)

lemma add_role_to_user_denied:
  assumes "confirms e w k"
    and "responds e ''PUT'' (''/iam/users/'' @ user @ ''/roles/'' @ role) 403"
  shows \<open>add_role_to_user e user role w = Some (False,
     w\<lparr>cin_pos := cin_pos w + Suc k,
       trace := trace w
        @ prompts (''Add role "'' @ role @ ''" to user "'' @ user @ ''"? '') (Suc k)
        @ [CreateCoap ''PUT'' (''/iam/users/'' @ user @ ''/roles/'' @ role),
           Execute ''PUT'' (''/iam/users/'' @ user @ ''/roles/'' @ role),
           Cout ''The request was denied.\<newline>'',
           Cout (''This is potentially due to insufficient privileges,\<newline>''
               @ ''check the IAM policies file if you are the owner of this device.\<newline>'')]\<rparr>)\<close>
  using assms(2)
  by (simp add: add_role_to_user_confirmed [OF assms(1)] add_role_to_user_try_def io_defs
      responds_def)

lemma remove_role_from_user_denied:
  assumes "confirms e w k"
    and "responds e ''DELETE'' (''/iam/users/'' @ user @ ''/roles/'' @ role) 403"
  shows \<open>remove_role_from_user e user role w = Some (False,
     w\<lparr>cin_pos := cin_pos w + Suc k,
       trace := trace w
        @ prompts (''Remove role "'' @ role @ ''" from user "'' @ user @ ''"? '') (Suc k)
        @ [CreateCoap ''DELETE'' (''/iam/users/'' @ user @ ''/roles/'' @ role),
           Execute ''DELETE'' (''/iam/users/'' @ user @ ''/roles/'' @ role),
           Cout (''The request to DELETE from /iam/users/'' @ user @ ''/roles/'' @ role
                 @ '' was denied.\<newline>''),
           Cout (''This is potentially due to insufficient privileges,\<newline>''
               @ ''check the IAM policies file if you are the owner of this device.\<newline>'')]\<rparr>)\<close>
  using assms(2)
  by (simp add: remove_role_from_user_confirmed [OF assms(1)] remove_role_from_user_try_def
      io_defs responds_def)

lemma delete_user_denied:
  assumes "confirms e w k" and "responds e ''DELETE'' (''/iam/users/'' @ user) 403"
  shows \<open>delete_user e user w = Some (False,
     w\<lparr>cin_pos := cin_pos w + Suc k,
       trace := trace w @ prompts (''Delete user "'' @ user @ ''"? '') (Suc k)
        @ [CreateCoap ''DELETE'' (''/iam/users/'' @ user),
           Execute ''DELETE'' (''/iam/users/'' @ user),
           Cout (''The request to DELETE from/iam/users/'' @ user @ ''was denied.\<newline>''),
           Cout (''This is potentially due to insufficient privileges,\<newline>''
               @ ''check the IAM policies file if you are the owner of this device.\<newline>'')]\<rparr>)\<close>
  using assms(2)
  by (simp add: delete_user_confirmed [OF assms(1)] delete_user_try_def io_defs responds_def)

lemma list_users_other_code:
  assumes "responds e ''GET'' ''/iam/users'' code" and "code \<noteq> 205" and "code \<noteq> 403"
  shows "list_users e w = (False,
     w\<lparr>trace := trace w @
        [CreateCoap ''GET'' ''/iam/users'', Execute ''GET'' ''/iam/users'',
         Cout (''The CoAP request to /iam/users returned response code: ''
               @ show_int code @ ''\<newline>'')]\<rparr>)"
  using assms by (simp add: list_users_def list_users_try_def io_defs responds_def Let_def)

lemma list_roles_other_code:
  assumes "responds e ''GET'' ''/iam/roles'' code" and "code \<noteq> 205" and "code \<noteq> 403"
  shows "list_roles e w = (False,
     w\<lparr>trace := trace w @
        [CreateCoap ''GET'' ''/iam/roles'', Execute ''GET'' ''/iam/roles'',
         Cout (''The CoAP request to /iam/roles returned response code: ''
               @ show_int code @ ''\<newline>'')]\<rparr>)"
  using assms by (simp add: list_roles_def list_roles_try_def io_defs responds_def Let_def)

lemma add_role_to_user_other_code:
  assumes "confirms e w k"
    and "responds e ''PUT'' (''/iam/users/'' @ user @ ''/roles/'' @ role) code"
    and "code \<noteq> 201" and "code \<noteq> 403" and "code \<noteq> 500"
  shows \<open>add_role_to_user e user role w = Some (False,
     w\<lparr>cin_pos := cin_pos w + Suc k,
       trace := trace w
        @ prompts (''Add role "'' @ role @ ''" to user "'' @ user @ ''"? '') (Suc k)
        @ [CreateCoap ''PUT'' (''/iam/users/'' @ user @ ''/roles/'' @ role),
           Execute ''PUT'' (''/iam/users/'' @ user @ ''/roles/'' @ role),
           Cout (''The CoAP request to /iam/users/'' @ user @ ''/roles/'' @ role
                 @ '' returned response code: '' @ show_int code @ ''\<newline>'')]\<rparr>)\<close>
  using assms(2-)
  by (simp add: add_role_to_user_confirmed [OF assms(1)] add_role_to_user_try_def io_defs
      responds_def)

lemma remove_role_from_user_other_code:
  assumes "confirms e w k"
    and "responds e ''DELETE'' (''/iam/users/'' @ user @ ''/roles/'' @ role) code"
    and "code \<noteq> 202" and "code \<noteq> 403" and "code \<noteq> 500"
  shows \<open>remove_role_from_user e user role w = Some (False,
     w\<lparr>cin_pos := cin_pos w + Suc k,
       trace := trace w
        @ prompts (''Remove role "'' @ role @ ''" from user "'' @ user @ ''"? '') (Suc k)
        @ [CreateCoap ''DELETE'' (''/iam/users/'' @ user @ ''/roles/'' @ role),
           Execute ''DELETE'' (''/iam/users/'' @ user @ ''/roles/'' @ role)]\<rparr>)\<close>
  using assms(2-)
  by (simp add: remove_role_from_user_confirmed [OF assms(1)] remove_role_from_user_try_def
      io_defs responds_def)

lemma delete_user_other_code:
  assumes "confirms e w k" and "responds e ''DELETE'' (''/iam/users/'' @ user) code"
    and "code \<noteq> 202" and "code \<noteq> 403"
  shows \<open>delete_user e user w = Some (False,
     w\<lparr>cin_pos := cin_pos w + Suc k,
       trace := trace w @ prompts (''Delete user "'' @ user @ ''"? '') (Suc k)
        @ [CreateCoap ''DELETE'' (''/iam/users/'' @ user),
           Execute ''DELETE'' (''/iam/users/'' @ user),
           Cout (''The CoAP request to /iam/users/'' @ user
                 @ '' returned response code: '' @ show_int code @ ''\<newline>'')]\<rparr>)\<close>
  using assms(2-)
  by (simp add: delete_user_confirmed [OF assms(1)] delete_user_try_def io_defs responds_def)

lemma confirms_typed_y: "confirms (scenario ''y'' code items) fresh 0"
  by (simp add: confirms_def others_def scenario_def typed_def fresh_def)

lemma responds_scenario: "responds (scenario answers code items) method path code"
  by (simp add: responds_def scenario_def)

lemma show_int_418: "show_int 418 = ''418''"
  by (simp add: show_int_def)

text \<open>
  Claim C6. When the operator has confirmed and the request of \<open>delete_user\<close> completes
  with a status code other than 202 and 403 (418, say), \<open>delete_user\<close> returns false and
  prints the generic line that names the request path and the code: after the prompts,
  the request and that line are all that happens.
\<close>

theorem delete_user_unrecognized_code:
  assumes "confirms e w k" and "responds e ''DELETE'' (''/iam/users/'' @ user) code"
    and "code \<noteq> 202" and "code \<noteq> 403"
  shows \<open>delete_user e user w = Some (False,
     w\<lparr>cin_pos := cin_pos w + Suc k,
       trace := trace w @ prompts (''Delete user "'' @ user @ ''"? '') (Suc k)
        @ [CreateCoap ''DELETE'' (''/iam/users/'' @ user),
           Execute ''DELETE'' (''/iam/users/'' @ user),
           Cout (''The CoAP request to /iam/users/'' @ user
                 @ '' returned response code: '' @ show_int code @ ''\<newline>'')]\<rparr>)\<close>
  using assms by (rule delete_user_other_code)

theorem delete_user_unrecognized_code_witness:
  \<open>confirms (scenario ''y'' 418 []) fresh 0 \<and>
   responds (scenario ''y'' 418 []) ''DELETE'' ''/iam/users/bob'' 418 \<and>
   delete_user (scenario ''y'' 418 []) ''bob'' fresh = Some (False,
     \<lparr>cin_pos = 1, failbit = False,
      trace = [Cout ''Delete user "bob"?  [y/n]: '',
               CreateCoap ''DELETE'' ''/iam/users/bob'',
               Execute ''DELETE'' ''/iam/users/bob'',
               Cout ''The CoAP request to /iam/users/bob returned response code: 418\<newline>'']\<rparr>)\<close>
proof -
  have c: "confirms (scenario ''y'' 418 []) fresh 0"
    by (rule confirms_typed_y)
  have r: "responds (scenario ''y'' 418 []) ''DELETE'' (''/iam/users/'' @ ''bob'') 418"
    by (rule responds_scenario)
  from delete_user_unrecognized_code [OF c r] c r show ?thesis
    by (simp add: show_int_418 prompts_def fresh_def)
qed

text \<open>
  Claim C3. When the confirmed request of \<open>remove_role_from_user\<close> completes with a status
  code other than 202, 403 and 500, the operation prints nothing and returns false: after
  the prompts the trace holds the request and no output. Each of the other four
  operations prints the generic status line for a code it does not recognise.
\<close>

theorem remove_role_from_user_silent:
  \<open>(confirms e w k \<and>
    responds e ''DELETE'' (''/iam/users/'' @ user @ ''/roles/'' @ role) code \<and>
    code \<noteq> 202 \<and> code \<noteq> 403 \<and> code \<noteq> 500 \<longrightarrow>
    remove_role_from_user e user role w = Some (False,
      w\<lparr>cin_pos := cin_pos w + Suc k,
        trace := trace w
          @ prompts (''Remove role "'' @ role @ ''" from user "'' @ user @ ''"? '') (Suc k)
          @ [CreateCoap ''DELETE'' (''/iam/users/'' @ user @ ''/roles/'' @ role),
             Execute ''DELETE'' (''/iam/users/'' @ user @ ''/roles/'' @ role)]\<rparr>)) \<and>
   (responds e ''GET'' ''/iam/users'' code \<and> code \<noteq> 205 \<and> code \<noteq> 403 \<longrightarrow>
    list_users e w = (False,
      w\<lparr>trace := trace w @
        [CreateCoap ''GET'' ''/iam/users'', Execute ''GET'' ''/iam/users'',
         Cout (''The CoAP request to /iam/users returned response code: ''
               @ show_int code @ ''\<newline>'')]\<rparr>)) \<and>
   (responds e ''GET'' ''/iam/roles'' code \<and> code \<noteq> 205 \<and> code \<noteq> 403 \<longrightarrow>
    list_roles e w = (False,
      w\<lparr>trace := trace w @
        [CreateCoap ''GET'' ''/iam/roles'', Execute ''GET'' ''/iam/roles'',
         Cout (''The CoAP request to /iam/roles returned response code: ''
               @ show_int code @ ''\<newline>'')]\<rparr>)) \<and>
   (confirms e w k \<and>
    responds e ''PUT'' (''/iam/users/'' @ user @ ''/roles/'' @ role) code \<and>
    code \<noteq> 201 \<and> code \<noteq> 403 \<and> code \<noteq> 500 \<longrightarrow>
    add_role_to_user e user role w = Some (False,
      w\<lparr>cin_pos := cin_pos w + Suc k,
        trace := trace w
          @ prompts (''Add role "'' @ role @ ''" to user "'' @ user @ ''"? '') (Suc k)
          @ [CreateCoap ''PUT'' (''/iam/users/'' @ user @ ''/roles/'' @ role),
             Execute ''PUT'' (''/iam/users/'' @ user @ ''/roles/'' @ role),
             Cout (''The CoAP request to /iam/users/'' @ user @ ''/roles/'' @ role
                   @ '' returned response code: '' @ show_int code @ ''\<newline>'')]\<rparr>)) \<and>
   (confirms e w k \<and> responds e ''DELETE'' (''/iam/users/'' @ user) code \<and>
    code \<noteq> 202 \<and> code \<noteq> 403 \<longrightarrow>
    delete_user e user w = Some (False,
      w\<lparr>cin_pos := cin_pos w + Suc k,
        trace := trace w @ prompts (''Delete user "'' @ user @ ''"? '') (Suc k)
          @ [CreateCoap ''DELETE'' (''/iam/users/'' @ user),
             Execute ''DELETE'' (''/iam/users/'' @ user),
             Cout (''The CoAP request to /iam/users/'' @ user
                   @ '' returned response code: '' @ show_int code @ ''\<newline>'')]\<rparr>))\<close>
  apply (intro conjI impI; elim conjE)
  subgoal by (rule remove_role_from_user_other_code)
  subgoal by (rule list_users_other_code)
  subgoal by (rule list_roles_other_code)
  subgoal by (rule add_role_to_user_other_code)
  subgoal by (rule delete_user_other_code)
  done

lemma show_int_404: "show_int 404 = ''404''"
  by (simp add: show_int_def)

theorem remove_role_from_user_silent_witness:
  \<open>remove_role_from_user (scenario ''y'' 404 []) ''bob'' ''admin'' fresh = Some (False,
     \<lparr>cin_pos = 1, failbit = False,
      trace = [Cout ''Remove role "admin" from user "bob"?  [y/n]: '',
               CreateCoap ''DELETE'' ''/iam/users/bob/roles/admin'',
               Execute ''DELETE'' ''/iam/users/bob/roles/admin'']\<rparr>) \<and>
   list_users (scenario ''y'' 404 []) fresh = (False,
     \<lparr>cin_pos = 0, failbit = False,
      trace = [CreateCoap ''GET'' ''/iam/users'', Execute ''GET'' ''/iam/users'',
               Cout ''The CoAP request to /iam/users returned response code: 404\<newline>'']\<rparr>) \<and>
   list_roles (scenario ''y'' 404 []) fresh = (False,
     \<lparr>cin_pos = 0, failbit = False,
      trace = [CreateCoap ''GET'' ''/iam/roles'', Execute ''GET'' ''/iam/roles'',
               Cout ''The CoAP request to /iam/roles returned response code: 404\<newline>'']\<rparr>) \<and>
   add_role_to_user (scenario ''y'' 404 []) ''bob'' ''admin'' fresh = Some (False,
     \<lparr>cin_pos = 1, failbit = False,
      trace = [Cout ''Add role "admin" to user "bob"?  [y/n]: '',
               CreateCoap ''PUT'' ''/iam/users/bob/roles/admin'',
               Execute ''PUT'' ''/iam/users/bob/roles/admin'',
               Cout ''The CoAP request to /iam/users/bob/roles/admin returned response code: 404\<newline>'']\<rparr>) \<and>
   delete_user (scenario ''y'' 404 []) ''bob'' fresh = Some (False,
     \<lparr>cin_pos = 1, failbit = False,
      trace = [Cout ''Delete user "bob"?  [y/n]: '',
               CreateCoap ''DELETE'' ''/iam/users/bob'',
               Execute ''DELETE'' ''/iam/users/bob'',
               Cout ''The CoAP request to /iam/users/bob returned response code: 404\<newline>'']\<rparr>)\<close>
proof -
  have c: "confirms (scenario ''y'' 404 []) fresh 0"
    by (rule confirms_typed_y)
  have r: "\<And>method path. responds (scenario ''y'' 404 []) method path 404"
    by (rule responds_scenario)
  from remove_role_from_user_silent
    [of "scenario ''y'' 404 []" fresh 0 "''bob''" "''admin''" 404] c r
  show ?thesis
    by (simp add: show_int_404 prompts_def fresh_def)
qed

text \<open>
  Claim C4. When the request completes with status code 403, each of the five operations
  returns false and prints its denial message followed by the access-denied guidance,
  which points at the IAM policies file of the device (for the three operations that ask
  first, after the operator has confirmed).
\<close>

theorem denied_gives_guidance:
  \<open>(responds e ''GET'' ''/iam/users'' 403 \<longrightarrow>
    list_users e w = (False,
     w\<lparr>trace := trace w @
        [CreateCoap ''GET'' ''/iam/users'', Execute ''GET'' ''/iam/users'',
         Cout ''The request to list users (/iam/users) was denied.\<newline>'',
         Cout (''This is potentially due to insufficient privileges,\<newline>''
               @ ''check the IAM policies file if you are the owner of this device.\<newline>'')]\<rparr>)) \<and>
   (responds e ''GET'' ''/iam/roles'' 403 \<longrightarrow>
    list_roles e w = (False,
     w\<lparr>trace := trace w @
        [CreateCoap ''GET'' ''/iam/roles'', Execute ''GET'' ''/iam/roles'',
         Cout ''The request to list roles (/iam/roles) was denied.\<newline>'',
         Cout (''This is potentially due to insufficient privileges,\<newline>''
               @ ''check the IAM policies file if you are the owner of this device.\<newline>'')]\<rparr>)) \<and>
   (confirms e w k \<and>
    responds e ''PUT'' (''/iam/users/'' @ user @ ''/roles/'' @ role) 403 \<longrightarrow>
    add_role_to_user e user role w = Some (False,
     w\<lparr>cin_pos := cin_pos w + Suc k,
       trace := trace w
        @ prompts (''Add role "'' @ role @ ''" to user "'' @ user @ ''"? '') (Suc k)
        @ [CreateCoap ''PUT'' (''/iam/users/'' @ user @ ''/roles/'' @ role),
           Execute ''PUT'' (''/iam/users/'' @ user @ ''/roles/'' @ role),
           Cout ''The request was denied.\<newline>'',
           Cout (''This is potentially due to insufficient privileges,\<newline>''
               @ ''check the IAM policies file if you are the owner of this device.\<newline>'')]\<rparr>)) \<and>
   (confirms e w k \<and>
    responds e ''DELETE'' (''/iam/users/'' @ user @ ''/roles/'' @ role) 403 \<longrightarrow>
    remove_role_from_user e user role w = Some (False,
     w\<lparr>cin_pos := cin_pos w + Suc k,
       trace := trace w
        @ prompts (''Remove role "'' @ role @ ''" from user "'' @ user @ ''"? '') (Suc k)
        @ [CreateCoap ''DELETE'' (''/iam/users/'' @ user @ ''/roles/'' @ role),
           Execute ''DELETE'' (''/iam/users/'' @ user @ ''/roles/'' @ role),
           Cout (''The request to DELETE from /iam/users/'' @ user @ ''/roles/'' @ role
                 @ '' was denied.\<newline>''),
           Cout (''This is potentially due to insufficient privileges,\<newline>''
               @ ''check the IAM policies file if you are the owner of this device.\<newline>'')]\<rparr>)) \<and>
   (confirms e w k \<and> responds e ''DELETE'' (''/iam/users/'' @ user) 403 \<longrightarrow>
    delete_user e user w = Some (False,
     w\<lparr>cin_pos := cin_pos w + Suc k,
       trace := trace w @ prompts (''Delete user "'' @ user @ ''"? '') (Suc k)
        @ [CreateCoap ''DELETE'' (''/iam/users/'' @ user),
           Execute ''DELETE'' (''/iam/users/'' @ user),
           Cout (''The request to DELETE from/iam/users/'' @ user @ ''was denied.\<newline>''),
           Cout (''This is potentially due to insufficient privileges,\<newline>''
               @ ''check the IAM policies file if you are the owner of this device.\<newline>'')]\<rparr>))\<close>
  apply (intro conjI impI; (elim conjE)?)
  subgoal by (rule list_users_denied)
  subgoal by (rule list_roles_denied)
  subgoal by (rule add_role_to_user_denied)
  subgoal by (rule remove_role_from_user_denied)
  subgoal by (rule delete_user_denied)
  done

theorem denied_gives_guidance_witness:
  \<open>list_users (scenario ''y'' 403 []) fresh = (False,
     \<lparr>cin_pos = 0, failbit = False,
      trace = [CreateCoap ''GET'' ''/iam/users'', Execute ''GET'' ''/iam/users'',
         Cout ''The request to list users (/iam/users) was denied.\<newline>'',
         Cout ''This is potentially due to insufficient privileges,\<newline>check the IAM policies file if you are the owner of this device.\<newline>'']\<rparr>) \<and>
   list_roles (scenario ''y'' 403 []) fresh = (False,
     \<lparr>cin_pos = 0, failbit = False,
      trace = [CreateCoap ''GET'' ''/iam/roles'', Execute ''GET'' ''/iam/roles'',
         Cout ''The request to list roles (/iam/roles) was denied.\<newline>'',
         Cout ''This is potentially due to insufficient privileges,\<newline>check the IAM policies file if you are the owner of this device.\<newline>'']\<rparr>) \<and>
   add_role_to_user (scenario ''y'' 403 []) ''bob'' ''admin'' fresh = Some (False,
     \<lparr>cin_pos = 1, failbit = False,
      trace = [Cout ''Add role "admin" to user "bob"?  [y/n]: '',
         CreateCoap ''PUT'' ''/iam/users/bob/roles/admin'',
         Execute ''PUT'' ''/iam/users/bob/roles/admin'',
         Cout ''The request was denied.\<newline>'',
         Cout ''This is potentially due to insufficient privileges,\<newline>check the IAM policies file if you are the owner of this device.\<newline>'']\<rparr>) \<and>
   remove_role_from_user (scenario ''y'' 403 []) ''bob'' ''admin'' fresh = Some (False,
     \<lparr>cin_pos = 1, failbit = False,
      trace = [Cout ''Remove role "admin" from user "bob"?  [y/n]: '',
         CreateCoap ''DELETE'' ''/iam/users/bob/roles/admin'',
         Execute ''DELETE'' ''/iam/users/bob/roles/admin'',
         Cout ''The request to DELETE from /iam/users/bob/roles/admin was denied.\<newline>'',
         Cout ''This is potentially due to insufficient privileges,\<newline>check the IAM policies file if you are the owner of this device.\<newline>'']\<rparr>) \<and>
   delete_user (scenario ''y'' 403 []) ''bob'' fresh = Some (False,
     \<lparr>cin_pos = 1, failbit = False,
      trace = [Cout ''Delete user "bob"?  [y/n]: '',
         CreateCoap ''DELETE'' ''/iam/users/bob'',
         Execute ''DELETE'' ''/iam/users/bob'',
         Cout ''The request to DELETE from/iam/users/bobwas denied.\<newline>'',
         Cout ''This is potentially due to insufficient privileges,\<newline>check the IAM policies file if you are the owner of this device.\<newline>'']\<rparr>)\<close>
proof -
  have c: "confirms (scenario ''y'' 403 []) fresh 0"
    by (rule confirms_typed_y)
  have r: "\<And>method path. responds (scenario ''y'' 403 []) method path 403"
    by (rule responds_scenario)
  from denied_gives_guidance [of "scenario ''y'' 403 []" fresh 0 "''bob''" "''admin''"] c r
  show ?thesis
    by (simp add: prompts_def fresh_def)
qed

subsection \<open>The listings\<close>

lemma sint_index:
  assumes "n < 2 ^ 31"
  shows "sint (of_nat n :: 32 word) = int n"
proof -
  have "int n < 2 ^ 31" using assms by (metis of_nat_less_iff of_nat_numeral of_nat_power)
  then show ?thesis
    by (simp add: signed_of_nat signed_take_bit_int_eq_self)
qed

lemma print_list_strings:
  "n + length ss < 2 ^ 31 \<Longrightarrow>
   print_list e label (of_nat (Suc n)) (map Str ss) w =
     (Inr (), w\<lparr>trace := trace w @
        map (\<lambda>k. Cout (''['' @ show_int (int (n + k) + 1) @ label @ ss ! k @ ''\<newline>''))
          [0..<length ss]\<rparr>)"
proof (induction ss arbitrary: n w)
  case Nil
  show ?case by (simp add: returns_def)
next
  case (Cons s ss)
  from Cons.prems have small: "Suc n < 2 ^ 31" and rest: "Suc n + length ss < 2 ^ 31"
    by simp_all
  have next_index: "(of_nat (Suc n) :: 32 word) + 1 = of_nat (Suc (Suc n))" by simp
  have "print_list e label (of_nat (Suc n)) (map Str (s # ss)) w =
        print_list e label (of_nat (Suc (Suc n))) (map Str ss)
          (cout (''['' @ show_int (int n + 1) @ label @ s @ ''\<newline>'') w)"
    using sint_index [OF small]
    by (simp add: andthen_def act_def next_index add.commute)
  also note Cons.IH [OF rest]
  finally show ?case
    by (simp add: cout_def map_upt_Suc del: upt_Suc)
qed

lemma print_list_throws:
  "Suc (n + length ss) < 2 ^ 31 \<Longrightarrow>
   print_list e label (of_nat (Suc n)) (map Str ss @ NotStr # rest) w =
     (Inl Exception, w\<lparr>trace := trace w @
        map (\<lambda>k. Cout (''['' @ show_int (int (n + k) + 1) @ label @ ss ! k @ ''\<newline>''))
          [0..<length ss]
        @ [Cout (concat (take (torn e)
                   [''['', show_int (int (n + length ss) + 1), label]))]\<rparr>)"
proof (induction ss arbitrary: n w)
  case Nil
  then have small: "Suc n < 2 ^ 31" by simp
  show ?case
    using sint_index [OF small]
    by (simp add: andthen_def act_def call_def cout_def add.commute)
next
  case (Cons s ss)
  from Cons.prems have small: "Suc n < 2 ^ 31" and rest: "Suc (Suc n + length ss) < 2 ^ 31"
    by simp_all
  have next_index: "(of_nat (Suc n) :: 32 word) + 1 = of_nat (Suc (Suc n))" by simp
  have "print_list e label (of_nat (Suc n)) (map Str (s # ss) @ NotStr # rest) w =
        print_list e label (of_nat (Suc (Suc n))) (map Str ss @ NotStr # rest)
          (cout (''['' @ show_int (int n + 1) @ label @ s @ ''\<newline>'') w)"
    using sint_index [OF small]
    by (simp add: andthen_def act_def next_index add.commute)
  also note Cons.IH [OF rest]
  finally show ?case
    by (simp add: cout_def map_upt_Suc del: upt_Suc)
qed

lemma list_users_listing:
  assumes "responds e ''GET'' ''/iam/users'' 205"
    and "getResponsePayload e ''GET'' ''/iam/users'' = Inr cbor"
    and "from_cbor e cbor = Inr (map Str users)"
    and "length users < 2 ^ 31"
  shows "list_users e w = (True,
     w\<lparr>trace := trace w @
        [CreateCoap ''GET'' ''/iam/users'', Execute ''GET'' ''/iam/users'',
         Cout ''Listing all users...\<newline>''] @ entries ''] UserID: '' users\<rparr>)"
proof -
  from assms(4) have "0 + length users < 2 ^ 31" by simp
  from print_list_strings [OF this, of e "''] UserID: ''"]
  have p: "\<And>w. print_list e ''] UserID: '' 1 (map Str users) w =
     (Inr (), w\<lparr>trace := trace w @ entries ''] UserID: '' users\<rparr>)"
    by (simp add: entries_def)
  from assms(1-3) show ?thesis
    by (simp add: list_users_def list_users_try_def responds_def Let_def andthen_def act_def
        call_def returns_def execute_def cout_def createCoap_def p)
qed

text \<open>
  Claim C5. When \<open>list_users\<close> receives status 205 and the payload decodes to a sequence
  of strings, it prints the header and then each string with its 1-based index, in order,
  and returns true (for fewer than \<open>2^31\<close> strings, the range of the \<open>int\<close> index). For
  the payload \<open>["alice", "bob"]\<close> the lines are number 1 for alice and number 2 for bob.
\<close>

theorem list_users_prints_entries:
  assumes "responds e ''GET'' ''/iam/users'' 205"
    and "getResponsePayload e ''GET'' ''/iam/users'' = Inr cbor"
    and "from_cbor e cbor = Inr (map Str users)"
    and "length users < 2 ^ 31"
  shows "list_users e w = (True,
     w\<lparr>trace := trace w @
        [CreateCoap ''GET'' ''/iam/users'', Execute ''GET'' ''/iam/users'',
         Cout ''Listing all users...\<newline>''] @
        map (\<lambda>k. Cout (''['' @ show_int (int k + 1) @ ''] UserID: '' @ users ! k @ ''\<newline>''))
          [0..<length users]\<rparr>)"
  using list_users_listing [OF assms] by (simp add: entries_def)

theorem list_users_prints_entries_witness:
  "list_users (scenario [] 205 [Str ''alice'', Str ''bob'']) fresh = (True,
     \<lparr>cin_pos = 0, failbit = False,
      trace = [CreateCoap ''GET'' ''/iam/users'', Execute ''GET'' ''/iam/users'',
               Cout ''Listing all users...\<newline>'',
               Cout ''[1] UserID: alice\<newline>'',
               Cout ''[2] UserID: bob\<newline>'']\<rparr>)"
proof -
  have r: "responds (scenario [] 205 [Str ''alice'', Str ''bob'']) ''GET'' ''/iam/users'' 205"
    by (rule responds_scenario)
  have p: "getResponsePayload (scenario [] 205 [Str ''alice'', Str ''bob''])
             ''GET'' ''/iam/users'' = Inr []"
    by (simp add: scenario_def)
  have d: "from_cbor (scenario [] 205 [Str ''alice'', Str ''bob'']) [] =
             Inr (map Str [''alice'', ''bob''])"
    by (simp add: scenario_def)
  have l: "length [''alice'', ''bob''] < (2::nat) ^ 31" by simp
  from list_users_prints_entries [OF r p d l, of fresh] show ?thesis
    by (simp add: fresh_def show_int_def upt_rec)
qed

subsection \<open>Exceptions\<close>

lemma list_users_send_fails:
  assumes "send_fails e ''GET'' ''/iam/users''"
  shows "list_users e w = (False,
     w\<lparr>trace := trace w @
        [CreateCoap ''GET'' ''/iam/users'', Execute ''GET'' ''/iam/users'',
         Cerr ''Cannot get IAM user list\<newline>'']\<rparr>)"
  using assms
  by (auto simp: list_users_def list_users_try_def io_defs send_fails_def Let_def)

lemma list_roles_send_fails:
  assumes "send_fails e ''GET'' ''/iam/roles''"
  shows "list_roles e w = (False,
     w\<lparr>trace := trace w @
        [CreateCoap ''GET'' ''/iam/roles'', Execute ''GET'' ''/iam/roles'',
         Cerr ''Cannot get IAM role list\<newline>'']\<rparr>)"
  using assms
  by (auto simp: list_roles_def list_roles_try_def io_defs send_fails_def Let_def)

lemma add_role_to_user_send_fails:
  assumes "confirms e w k"
    and "send_fails e ''PUT'' (''/iam/users/'' @ user @ ''/roles/'' @ role)"
  shows \<open>add_role_to_user e user role w = Some (False,
     w\<lparr>cin_pos := cin_pos w + Suc k,
       trace := trace w
        @ prompts (''Add role "'' @ role @ ''" to user "'' @ user @ ''"? '') (Suc k)
        @ [CreateCoap ''PUT'' (''/iam/users/'' @ user @ ''/roles/'' @ role),
           Execute ''PUT'' (''/iam/users/'' @ user @ ''/roles/'' @ role),
           Cerr ''An unknown error occurred.\<newline>'']\<rparr>)\<close>
  using assms(2)
  by (auto simp: add_role_to_user_confirmed [OF assms(1)] add_role_to_user_try_def io_defs
      send_fails_def)

lemma remove_role_from_user_send_fails:
  assumes "confirms e w k"
    and "send_fails e ''DELETE'' (''/iam/users/'' @ user @ ''/roles/'' @ role)"
  shows \<open>remove_role_from_user e user role w = Some (False,
     w\<lparr>cin_pos := cin_pos w + Suc k,
       trace := trace w
        @ prompts (''Remove role "'' @ role @ ''" from user "'' @ user @ ''"? '') (Suc k)
        @ [CreateCoap ''DELETE'' (''/iam/users/'' @ user @ ''/roles/'' @ role),
           Execute ''DELETE'' (''/iam/users/'' @ user @ ''/roles/'' @ role),
           Cerr ''An unknown error occurred.\<newline>'']\<rparr>)\<close>
  using assms(2)
  by (auto simp: remove_role_from_user_confirmed [OF assms(1)] remove_role_from_user_try_def
      io_defs send_fails_def)

lemma delete_user_send_fails:
  assumes "confirms e w k" and "send_fails e ''DELETE'' (''/iam/users/'' @ user)"
  shows \<open>delete_user e user w = Some (False,
     w\<lparr>cin_pos := cin_pos w + Suc k,
       trace := trace w @ prompts (''Delete user "'' @ user @ ''"? '') (Suc k)
        @ [CreateCoap ''DELETE'' (''/iam/users/'' @ user),
           Execute ''DELETE'' (''/iam/users/'' @ user),
           Cerr ''An unknown error occurred.\<newline>'']\<rparr>)\<close>
  using assms(2)
  by (auto simp: delete_user_confirmed [OF assms(1)] delete_user_try_def io_defs
      send_fails_def)

lemma list_users_payload_fails:
  assumes "responds e ''GET'' ''/iam/users'' 205"
    and "getResponsePayload e ''GET'' ''/iam/users'' = Inl Exception"
  shows "list_users e w = (False,
     w\<lparr>trace := trace w @
        [CreateCoap ''GET'' ''/iam/users'', Execute ''GET'' ''/iam/users'',
         Cerr ''Cannot get IAM user list\<newline>'']\<rparr>)"
  using assms
  by (simp add: list_users_def list_users_try_def io_defs responds_def Let_def)

lemma list_users_from_cbor_fails:
  assumes "responds e ''GET'' ''/iam/users'' 205"
    and "getResponsePayload e ''GET'' ''/iam/users'' = Inr cbor"
    and "from_cbor e cbor = Inl Exception"
  shows "list_users e w = (False,
     w\<lparr>trace := trace w @
        [CreateCoap ''GET'' ''/iam/users'', Execute ''GET'' ''/iam/users'',
         Cout ''Listing all users...\<newline>'',
         Cerr ''Cannot get IAM user list\<newline>'']\<rparr>)"
  using assms
  by (simp add: list_users_def list_users_try_def io_defs responds_def Let_def)

lemma list_users_element_fails:
  assumes "responds e ''GET'' ''/iam/users'' 205"
    and "getResponsePayload e ''GET'' ''/iam/users'' = Inr cbor"
    and "from_cbor e cbor = Inr (map Str users @ NotStr # rest)"
    and "Suc (length users) < 2 ^ 31"
  shows "list_users e w = (False,
     w\<lparr>trace := trace w @
        [CreateCoap ''GET'' ''/iam/users'', Execute ''GET'' ''/iam/users'',
         Cout ''Listing all users...\<newline>''] @ entries ''] UserID: '' users @
        [Cout (concat (take (torn e)
                 [''['', show_int (int (length users) + 1), ''] UserID: ''])),
         Cerr ''Cannot get IAM user list\<newline>'']\<rparr>)"
proof -
  from assms(4) have "Suc (0 + length users) < 2 ^ 31" by simp
  from print_list_throws [OF this, of e "''] UserID: ''" rest]
  have p: "\<And>w. print_list e ''] UserID: '' 1 (map Str users @ NotStr # rest) w =
     (Inl Exception, w\<lparr>trace := trace w @ entries ''] UserID: '' users @
        [Cout (concat (take (torn e)
                 [''['', show_int (int (length users) + 1), ''] UserID: '']))]\<rparr>)"
    by (simp add: entries_def)
  from assms(1-3) show ?thesis
    by (simp add: list_users_def list_users_try_def responds_def Let_def andthen_def act_def
        call_def returns_def execute_def cout_def cerr_def createCoap_def p)
qed

lemma list_roles_payload_fails:
  assumes "responds e ''GET'' ''/iam/roles'' 205"
    and "getResponsePayload e ''GET'' ''/iam/roles'' = Inl Exception"
  shows "list_roles e w = (False,
     w\<lparr>trace := trace w @
        [CreateCoap ''GET'' ''/iam/roles'', Execute ''GET'' ''/iam/roles'',
         Cerr ''Cannot get IAM role list\<newline>'']\<rparr>)"
  using assms
  by (simp add: list_roles_def list_roles_try_def io_defs responds_def Let_def)

lemma list_roles_from_cbor_fails:
  assumes "responds e ''GET'' ''/iam/roles'' 205"
    and "getResponsePayload e ''GET'' ''/iam/roles'' = Inr cbor"
    and "from_cbor e cbor = Inl Exception"
  shows "list_roles e w = (False,
     w\<lparr>trace := trace w @
        [CreateCoap ''GET'' ''/iam/roles'', Execute ''GET'' ''/iam/roles'',
         Cout ''Listing available roles...\<newline>'',
         Cerr ''Cannot get IAM role list\<newline>'']\<rparr>)"
  using assms
  by (simp add: list_roles_def list_roles_try_def io_defs responds_def Let_def)

lemma list_roles_element_fails:
  assumes "responds e ''GET'' ''/iam/roles'' 205"
    and "getResponsePayload e ''GET'' ''/iam/roles'' = Inr cbor"
    and "from_cbor e cbor = Inr (map Str roles @ NotStr # rest)"
    and "Suc (length roles) < 2 ^ 31"
  shows "list_roles e w = (False,
     w\<lparr>trace := trace w @
        [CreateCoap ''GET'' ''/iam/roles'', Execute ''GET'' ''/iam/roles'',
         Cout ''Listing available roles...\<newline>''] @ entries '']: '' roles @
        [Cout (concat (take (torn e) [''['', show_int (int (length roles) + 1), '']: ''])),
         Cerr ''Cannot get IAM role list\<newline>'']\<rparr>)"
proof -
  from assms(4) have "Suc (0 + length roles) < 2 ^ 31" by simp
  from print_list_throws [OF this, of e "'']: ''" rest]
  have p: "\<And>w. print_list e '']: '' 1 (map Str roles @ NotStr # rest) w =
     (Inl Exception, w\<lparr>trace := trace w @ entries '']: '' roles @
        [Cout (concat (take (torn e) [''['', show_int (int (length roles) + 1), '']: '']))]\<rparr>)"
    by (simp add: entries_def)
  from assms(1-3) show ?thesis
    by (simp add: list_roles_def list_roles_try_def responds_def Let_def andthen_def act_def
        call_def returns_def execute_def cout_def cerr_def createCoap_def p)
qed

text \<open>
  Claim C7 says that an exception thrown while the request is sent or while the payload is
  decoded is caught, that the generic error line goes to the error stream, that no success
  message is emitted and that the operation returns false. The listing operations write as
  they decode: when the second element of the payload is not a string, \<open>list_users\<close> has
  printed the header and the line of the first user before the exception is thrown (and,
  with the operands evaluated left to right, the beginning of the second line).
\<close>

theorem fault_after_listing_started:
  "from_cbor (scenario [] 205 [Str ''alice'', NotStr]) [] = Inr [Str ''alice'', NotStr] \<and>
   list_users (scenario [] 205 [Str ''alice'', NotStr]) fresh = (False,
     \<lparr>cin_pos = 0, failbit = False,
      trace = [CreateCoap ''GET'' ''/iam/users'', Execute ''GET'' ''/iam/users'',
               Cout ''Listing all users...\<newline>'',
               Cout ''[1] UserID: alice\<newline>'',
               Cout ''[2] UserID: '',
               Cerr ''Cannot get IAM user list\<newline>'']\<rparr>)"
  by (simp add: list_users_def list_users_try_def io_defs scenario_def fresh_def Let_def
      show_int_def)


text \<open>
  Claim C7, amended. An exception thrown while the request is sent, or while the payload is
  fetched or decoded, is caught by the operation: the generic error line is printed to the
  error stream, as the last thing, and the operation returns false. When the exception
  comes from sending the request or from fetching the payload, nothing has been written to
  standard output (the prompts apart). When it comes from decoding, the listing
  operations have printed the header line, and, if it is an element that is not a string,
  the numbered lines of the strings before it and the part of its own line written so far.
\<close>

theorem fault_is_caught:
  \<open>(send_fails e ''GET'' ''/iam/users'' \<longrightarrow>
    list_users e w = (False,
     w\<lparr>trace := trace w @
        [CreateCoap ''GET'' ''/iam/users'', Execute ''GET'' ''/iam/users'',
         Cerr ''Cannot get IAM user list\<newline>'']\<rparr>)) \<and>
   (send_fails e ''GET'' ''/iam/roles'' \<longrightarrow>
    list_roles e w = (False,
     w\<lparr>trace := trace w @
        [CreateCoap ''GET'' ''/iam/roles'', Execute ''GET'' ''/iam/roles'',
         Cerr ''Cannot get IAM role list\<newline>'']\<rparr>)) \<and>
   (confirms e w k \<and>
    send_fails e ''PUT'' (''/iam/users/'' @ user @ ''/roles/'' @ role) \<longrightarrow>
    add_role_to_user e user role w = Some (False,
     w\<lparr>cin_pos := cin_pos w + Suc k,
       trace := trace w
        @ prompts (''Add role "'' @ role @ ''" to user "'' @ user @ ''"? '') (Suc k)
        @ [CreateCoap ''PUT'' (''/iam/users/'' @ user @ ''/roles/'' @ role),
           Execute ''PUT'' (''/iam/users/'' @ user @ ''/roles/'' @ role),
           Cerr ''An unknown error occurred.\<newline>'']\<rparr>)) \<and>
   (confirms e w k \<and>
    send_fails e ''DELETE'' (''/iam/users/'' @ user @ ''/roles/'' @ role) \<longrightarrow>
    remove_role_from_user e user role w = Some (False,
     w\<lparr>cin_pos := cin_pos w + Suc k,
       trace := trace w
        @ prompts (''Remove role "'' @ role @ ''" from user "'' @ user @ ''"? '') (Suc k)
        @ [CreateCoap ''DELETE'' (''/iam/users/'' @ user @ ''/roles/'' @ role),
           Execute ''DELETE'' (''/iam/users/'' @ user @ ''/roles/'' @ role),
           Cerr ''An unknown error occurred.\<newline>'']\<rparr>)) \<and>
   (confirms e w k \<and> send_fails e ''DELETE'' (''/iam/users/'' @ user) \<longrightarrow>
    delete_user e user w = Some (False,
     w\<lparr>cin_pos := cin_pos w + Suc k,
       trace := trace w @ prompts (''Delete user "'' @ user @ ''"? '') (Suc k)
        @ [CreateCoap ''DELETE'' (''/iam/users/'' @ user),
           Execute ''DELETE'' (''/iam/users/'' @ user),
           Cerr ''An unknown error occurred.\<newline>'']\<rparr>)) \<and>
   (responds e ''GET'' ''/iam/users'' 205 \<and>
    getResponsePayload e ''GET'' ''/iam/users'' = Inl Exception \<longrightarrow>
    list_users e w = (False,
     w\<lparr>trace := trace w @
        [CreateCoap ''GET'' ''/iam/users'', Execute ''GET'' ''/iam/users'',
         Cerr ''Cannot get IAM user list\<newline>'']\<rparr>)) \<and>
   (responds e ''GET'' ''/iam/users'' 205 \<and>
    getResponsePayload e ''GET'' ''/iam/users'' = Inr cbor \<and>
    from_cbor e cbor = Inl Exception \<longrightarrow>
    list_users e w = (False,
     w\<lparr>trace := trace w @
        [CreateCoap ''GET'' ''/iam/users'', Execute ''GET'' ''/iam/users'',
         Cout ''Listing all users...\<newline>'',
         Cerr ''Cannot get IAM user list\<newline>'']\<rparr>)) \<and>
   (responds e ''GET'' ''/iam/users'' 205 \<and>
    getResponsePayload e ''GET'' ''/iam/users'' = Inr cbor \<and>
    from_cbor e cbor = Inr (map Str names @ NotStr # rest) \<and>
    Suc (length names) < 2 ^ 31 \<longrightarrow>
    list_users e w = (False,
     w\<lparr>trace := trace w @
        [CreateCoap ''GET'' ''/iam/users'', Execute ''GET'' ''/iam/users'',
         Cout ''Listing all users...\<newline>''] @ entries ''] UserID: '' names @
        [Cout (concat (take (torn e)
                 [''['', show_int (int (length names) + 1), ''] UserID: ''])),
         Cerr ''Cannot get IAM user list\<newline>'']\<rparr>)) \<and>
   (responds e ''GET'' ''/iam/roles'' 205 \<and>
    getResponsePayload e ''GET'' ''/iam/roles'' = Inl Exception \<longrightarrow>
    list_roles e w = (False,
     w\<lparr>trace := trace w @
        [CreateCoap ''GET'' ''/iam/roles'', Execute ''GET'' ''/iam/roles'',
         Cerr ''Cannot get IAM role list\<newline>'']\<rparr>)) \<and>
   (responds e ''GET'' ''/iam/roles'' 205 \<and>
    getResponsePayload e ''GET'' ''/iam/roles'' = Inr cbor \<and>
    from_cbor e cbor = Inl Exception \<longrightarrow>
    list_roles e w = (False,
     w\<lparr>trace := trace w @
        [CreateCoap ''GET'' ''/iam/roles'', Execute ''GET'' ''/iam/roles'',
         Cout ''Listing available roles...\<newline>'',
         Cerr ''Cannot get IAM role list\<newline>'']\<rparr>)) \<and>
   (responds e ''GET'' ''/iam/roles'' 205 \<and>
    getResponsePayload e ''GET'' ''/iam/roles'' = Inr cbor \<and>
    from_cbor e cbor = Inr (map Str names @ NotStr # rest) \<and>
    Suc (length names) < 2 ^ 31 \<longrightarrow>
    list_roles e w = (False,
     w\<lparr>trace := trace w @
        [CreateCoap ''GET'' ''/iam/roles'', Execute ''GET'' ''/iam/roles'',
         Cout ''Listing available roles...\<newline>''] @ entries '']: '' names @
        [Cout (concat (take (torn e) [''['', show_int (int (length names) + 1), '']: ''])),
         Cerr ''Cannot get IAM role list\<newline>'']\<rparr>))\<close>
  apply (intro conjI impI; (elim conjE)?)
  subgoal by (rule list_users_send_fails)
  subgoal by (rule list_roles_send_fails)
  subgoal by (rule add_role_to_user_send_fails)
  subgoal by (rule remove_role_from_user_send_fails)
  subgoal by (rule delete_user_send_fails)
  subgoal by (rule list_users_payload_fails)
  subgoal by (rule list_users_from_cbor_fails)
  subgoal by (rule list_users_element_fails)
  subgoal by (rule list_roles_payload_fails)
  subgoal by (rule list_roles_from_cbor_fails)
  subgoal by (rule list_roles_element_fails)
  done

lemma confirms_unreachable: "confirms (unreachable ''y'') fresh 0"
  by (simp add: confirms_def others_def unreachable_def scenario_def typed_def fresh_def)

lemma send_fails_unreachable: "send_fails (unreachable answers) method path"
  by (simp add: send_fails_def unreachable_def scenario_def)

theorem fault_is_caught_witness:
  \<open>list_users (unreachable ''y'') fresh = (False,
     \<lparr>cin_pos = 0, failbit = False,
      trace = [CreateCoap ''GET'' ''/iam/users'', Execute ''GET'' ''/iam/users'',
               Cerr ''Cannot get IAM user list\<newline>'']\<rparr>) \<and>
   list_roles (unreachable ''y'') fresh = (False,
     \<lparr>cin_pos = 0, failbit = False,
      trace = [CreateCoap ''GET'' ''/iam/roles'', Execute ''GET'' ''/iam/roles'',
               Cerr ''Cannot get IAM role list\<newline>'']\<rparr>) \<and>
   add_role_to_user (unreachable ''y'') ''bob'' ''admin'' fresh = Some (False,
     \<lparr>cin_pos = 1, failbit = False,
      trace = [Cout ''Add role "admin" to user "bob"?  [y/n]: '',
               CreateCoap ''PUT'' ''/iam/users/bob/roles/admin'',
               Execute ''PUT'' ''/iam/users/bob/roles/admin'',
               Cerr ''An unknown error occurred.\<newline>'']\<rparr>) \<and>
   remove_role_from_user (unreachable ''y'') ''bob'' ''admin'' fresh = Some (False,
     \<lparr>cin_pos = 1, failbit = False,
      trace = [Cout ''Remove role "admin" from user "bob"?  [y/n]: '',
               CreateCoap ''DELETE'' ''/iam/users/bob/roles/admin'',
               Execute ''DELETE'' ''/iam/users/bob/roles/admin'',
               Cerr ''An unknown error occurred.\<newline>'']\<rparr>) \<and>
   delete_user (unreachable ''y'') ''bob'' fresh = Some (False,
     \<lparr>cin_pos = 1, failbit = False,
      trace = [Cout ''Delete user "bob"?  [y/n]: '',
               CreateCoap ''DELETE'' ''/iam/users/bob'',
               Execute ''DELETE'' ''/iam/users/bob'',
               Cerr ''An unknown error occurred.\<newline>'']\<rparr>) \<and>
   list_users ((scenario [] 205 [])\<lparr>getResponsePayload := (\<lambda>_ _. Inl Exception)\<rparr>) fresh =
    (False,
     \<lparr>cin_pos = 0, failbit = False,
      trace = [CreateCoap ''GET'' ''/iam/users'', Execute ''GET'' ''/iam/users'',
               Cerr ''Cannot get IAM user list\<newline>'']\<rparr>) \<and>
   list_roles ((scenario [] 205 [])\<lparr>getResponsePayload := (\<lambda>_ _. Inl Exception)\<rparr>) fresh =
    (False,
     \<lparr>cin_pos = 0, failbit = False,
      trace = [CreateCoap ''GET'' ''/iam/roles'', Execute ''GET'' ''/iam/roles'',
               Cerr ''Cannot get IAM role list\<newline>'']\<rparr>) \<and>
   list_users ((scenario [] 205 [])\<lparr>from_cbor := (\<lambda>_. Inl Exception)\<rparr>) fresh =
    (False,
     \<lparr>cin_pos = 0, failbit = False,
      trace = [CreateCoap ''GET'' ''/iam/users'', Execute ''GET'' ''/iam/users'',
               Cout ''Listing all users...\<newline>'',
               Cerr ''Cannot get IAM user list\<newline>'']\<rparr>) \<and>
   list_roles ((scenario [] 205 [])\<lparr>from_cbor := (\<lambda>_. Inl Exception)\<rparr>) fresh =
    (False,
     \<lparr>cin_pos = 0, failbit = False,
      trace = [CreateCoap ''GET'' ''/iam/roles'', Execute ''GET'' ''/iam/roles'',
               Cout ''Listing available roles...\<newline>'',
               Cerr ''Cannot get IAM role list\<newline>'']\<rparr>) \<and>
   list_users (scenario [] 205 [Str ''admin'', NotStr, Str ''guest'']) fresh = (False,
     \<lparr>cin_pos = 0, failbit = False,
      trace = [CreateCoap ''GET'' ''/iam/users'', Execute ''GET'' ''/iam/users'',
               Cout ''Listing all users...\<newline>'',
               Cout ''[1] UserID: admin\<newline>'',
               Cout ''[2] UserID: '',
               Cerr ''Cannot get IAM user list\<newline>'']\<rparr>) \<and>
   list_roles (scenario [] 205 [Str ''admin'', NotStr, Str ''guest'']) fresh = (False,
     \<lparr>cin_pos = 0, failbit = False,
      trace = [CreateCoap ''GET'' ''/iam/roles'', Execute ''GET'' ''/iam/roles'',
               Cout ''Listing available roles...\<newline>'',
               Cout ''[1]: admin\<newline>'',
               Cout ''[2]: '',
               Cerr ''Cannot get IAM role list\<newline>'']\<rparr>)\<close>
proof -
  have c: "confirms (unreachable ''y'') fresh 0"
    by (rule confirms_unreachable)
  have s: "\<And>method path. send_fails (unreachable ''y'') method path"
    by (rule send_fails_unreachable)
  note sending = fault_is_caught [of "unreachable ''y''" fresh 0 "''bob''" "''admin''"]
  let ?p = "(scenario [] 205 [])\<lparr>getResponsePayload := (\<lambda>_ _. Inl Exception)\<rparr>"
  have rp: "\<And>method path. responds ?p method path 205"
    and pp: "\<And>method path. getResponsePayload ?p method path = Inl Exception"
    by (simp_all add: responds_def scenario_def)
  note fetching = fault_is_caught [of ?p fresh]
  let ?c = "(scenario [] 205 [])\<lparr>from_cbor := (\<lambda>_. Inl Exception)\<rparr>"
  have rc: "\<And>method path. responds ?c method path 205"
    and pc: "\<And>method path. getResponsePayload ?c method path = Inr []"
    and dc: "from_cbor ?c [] = Inl Exception"
    by (simp_all add: responds_def scenario_def)
  note decoding = fault_is_caught [of ?c fresh _ _ _ "[]"]
  let ?e = "scenario [] 205 [Str ''admin'', NotStr, Str ''guest'']"
  have re: "\<And>method path. responds ?e method path 205"
    by (rule responds_scenario)
  have pe: "\<And>method path. getResponsePayload ?e method path = Inr []"
    by (simp add: scenario_def)
  have de: "from_cbor ?e [] = Inr (map Str [''admin''] @ NotStr # [Str ''guest''])"
    by (simp add: scenario_def)
  have le: "Suc (length [''admin'']) < (2::nat) ^ 31" by simp
  have te: "torn ?e = 3" by (simp add: scenario_def)
  note element = fault_is_caught [of ?e fresh _ _ _ "[]" "[''admin'']" "[Str ''guest'']"]
  from sending c s
  have first: \<open>list_users (unreachable ''y'') fresh = (False,
     \<lparr>cin_pos = 0, failbit = False,
      trace = [CreateCoap ''GET'' ''/iam/users'', Execute ''GET'' ''/iam/users'',
               Cerr ''Cannot get IAM user list\<newline>'']\<rparr>) \<and>
   list_roles (unreachable ''y'') fresh = (False,
     \<lparr>cin_pos = 0, failbit = False,
      trace = [CreateCoap ''GET'' ''/iam/roles'', Execute ''GET'' ''/iam/roles'',
               Cerr ''Cannot get IAM role list\<newline>'']\<rparr>) \<and>
   add_role_to_user (unreachable ''y'') ''bob'' ''admin'' fresh = Some (False,
     \<lparr>cin_pos = 1, failbit = False,
      trace = [Cout ''Add role "admin" to user "bob"?  [y/n]: '',
               CreateCoap ''PUT'' ''/iam/users/bob/roles/admin'',
               Execute ''PUT'' ''/iam/users/bob/roles/admin'',
               Cerr ''An unknown error occurred.\<newline>'']\<rparr>) \<and>
   remove_role_from_user (unreachable ''y'') ''bob'' ''admin'' fresh = Some (False,
     \<lparr>cin_pos = 1, failbit = False,
      trace = [Cout ''Remove role "admin" from user "bob"?  [y/n]: '',
               CreateCoap ''DELETE'' ''/iam/users/bob/roles/admin'',
               Execute ''DELETE'' ''/iam/users/bob/roles/admin'',
               Cerr ''An unknown error occurred.\<newline>'']\<rparr>) \<and>
   delete_user (unreachable ''y'') ''bob'' fresh = Some (False,
     \<lparr>cin_pos = 1, failbit = False,
      trace = [Cout ''Delete user "bob"?  [y/n]: '',
               CreateCoap ''DELETE'' ''/iam/users/bob'',
               Execute ''DELETE'' ''/iam/users/bob'',
               Cerr ''An unknown error occurred.\<newline>'']\<rparr>)\<close>
    by (simp add: prompts_def fresh_def)
  from fetching rp pp
  have second: \<open>list_users ?p fresh = (False,
     \<lparr>cin_pos = 0, failbit = False,
      trace = [CreateCoap ''GET'' ''/iam/users'', Execute ''GET'' ''/iam/users'',
               Cerr ''Cannot get IAM user list\<newline>'']\<rparr>) \<and>
   list_roles ?p fresh = (False,
     \<lparr>cin_pos = 0, failbit = False,
      trace = [CreateCoap ''GET'' ''/iam/roles'', Execute ''GET'' ''/iam/roles'',
               Cerr ''Cannot get IAM role list\<newline>'']\<rparr>)\<close>
    by (simp add: fresh_def)
  from decoding rc pc dc
  have third: \<open>list_users ?c fresh = (False,
     \<lparr>cin_pos = 0, failbit = False,
      trace = [CreateCoap ''GET'' ''/iam/users'', Execute ''GET'' ''/iam/users'',
               Cout ''Listing all users...\<newline>'',
               Cerr ''Cannot get IAM user list\<newline>'']\<rparr>) \<and>
   list_roles ?c fresh = (False,
     \<lparr>cin_pos = 0, failbit = False,
      trace = [CreateCoap ''GET'' ''/iam/roles'', Execute ''GET'' ''/iam/roles'',
               Cout ''Listing available roles...\<newline>'',
               Cerr ''Cannot get IAM role list\<newline>'']\<rparr>)\<close>
    by (simp add: fresh_def)
  from element re pe de le te
  have fourth: \<open>list_users ?e fresh = (False,
     \<lparr>cin_pos = 0, failbit = False,
      trace = [CreateCoap ''GET'' ''/iam/users'', Execute ''GET'' ''/iam/users'',
               Cout ''Listing all users...\<newline>'',
               Cout ''[1] UserID: admin\<newline>'',
               Cout ''[2] UserID: '',
               Cerr ''Cannot get IAM user list\<newline>'']\<rparr>) \<and>
   list_roles ?e fresh = (False,
     \<lparr>cin_pos = 0, failbit = False,
      trace = [CreateCoap ''GET'' ''/iam/roles'', Execute ''GET'' ''/iam/roles'',
               Cout ''Listing available roles...\<newline>'',
               Cout ''[1]: admin\<newline>'',
               Cout ''[2]: '',
               Cerr ''Cannot get IAM role list\<newline>'']\<rparr>)\<close>
    by (simp add: fresh_def entries_def show_int_def)
  from first second third fourth show ?thesis by simp
qed

subsection \<open>The requests of an invocation\<close>

lemma print_list_requests:
  "requests (trace (snd (print_list e label i items w))) = requests (trace w) \<and>
   created (trace (snd (print_list e label i items w))) = created (trace w)"
  by (induction e label i items arbitrary: w rule: print_list.induct)
    (simp_all add: io_defs)

lemma list_users_try_requests:
  "requests (trace (snd (list_users_try e path w))) = requests (trace w) @ [(''GET'', path)] \<and>
   created (trace (snd (list_users_try e path w))) = created (trace w)"
proof -
  have p: "\<And>items w r w'. print_list e ''] UserID: '' 1 items w = (r, w') \<Longrightarrow>
      requests (trace w') = requests (trace w) \<and> created (trace w') = created (trace w)"
    using print_list_requests [of e "''] UserID: ''" 1] by (metis snd_conv)
  show ?thesis
    by (auto dest!: p simp: list_users_try_def io_defs split: sum.splits prod.splits)
qed

lemma list_roles_try_requests:
  "requests (trace (snd (list_roles_try e path w))) = requests (trace w) @ [(''GET'', path)] \<and>
   created (trace (snd (list_roles_try e path w))) = created (trace w)"
proof -
  have p: "\<And>items w r w'. print_list e '']: '' 1 items w = (r, w') \<Longrightarrow>
      requests (trace w') = requests (trace w) \<and> created (trace w') = created (trace w)"
    using print_list_requests [of e "'']: ''" 1] by (metis snd_conv)
  show ?thesis
    by (auto dest!: p simp: list_roles_try_def io_defs split: sum.splits prod.splits)
qed

lemma add_role_to_user_try_requests:
  "requests (trace (snd (add_role_to_user_try e path w))) =
     requests (trace w) @ [(''PUT'', path)] \<and>
   created (trace (snd (add_role_to_user_try e path w))) = created (trace w)"
  by (simp add: add_role_to_user_try_def io_defs split: sum.splits)

lemma remove_role_from_user_try_requests:
  "requests (trace (snd (remove_role_from_user_try e path w))) =
     requests (trace w) @ [(''DELETE'', path)] \<and>
   created (trace (snd (remove_role_from_user_try e path w))) = created (trace w)"
  by (simp add: remove_role_from_user_try_def io_defs split: sum.splits)

lemma delete_user_try_requests:
  "requests (trace (snd (delete_user_try e path w))) =
     requests (trace w) @ [(''DELETE'', path)] \<and>
   created (trace (snd (delete_user_try e path w))) = created (trace w)"
  by (simp add: delete_user_try_def io_defs split: sum.splits)

lemma list_users_requests:
  "requests (trace (snd (list_users e w))) = requests (trace w) @ [(''GET'', ''/iam/users'')] \<and>
   created (trace (snd (list_users e w))) = created (trace w) @ [(''GET'', ''/iam/users'')]"
  using list_users_try_requests [of e "''/iam/users''" "createCoap ''GET'' ''/iam/users'' w"]
  by (auto simp: list_users_def Let_def cerr_def createCoap_def split: prod.splits sum.splits)

lemma list_roles_requests:
  "requests (trace (snd (list_roles e w))) = requests (trace w) @ [(''GET'', ''/iam/roles'')] \<and>
   created (trace (snd (list_roles e w))) = created (trace w) @ [(''GET'', ''/iam/roles'')]"
  using list_roles_try_requests [of e "''/iam/roles''" "createCoap ''GET'' ''/iam/roles'' w"]
  by (auto simp: list_roles_def Let_def cerr_def createCoap_def split: prod.splits sum.splits)

lemma add_role_to_user_requests:
  assumes "confirms e w k"
  shows \<open>\<exists>r w'. add_role_to_user e user role w = Some (r, w') \<and>
     requests (trace w') = requests (trace w) @ [(''PUT'', ''/iam/users/'' @ user @ ''/roles/'' @ role)] \<and>
     created (trace w') = created (trace w) @ [(''PUT'', ''/iam/users/'' @ user @ ''/roles/'' @ role)]\<close>
proof -
  let ?w = \<open>w\<lparr>cin_pos := cin_pos w + Suc k,
          trace := trace w @ prompts (''Add role "'' @ role @ ''" to user "'' @ user @ ''"? '') (Suc k)
            @ [CreateCoap ''PUT'' (''/iam/users/'' @ user @ ''/roles/'' @ role)]\<rparr>\<close>
  obtain res w2 where t: "add_role_to_user_try e (''/iam/users/'' @ user @ ''/roles/'' @ role) ?w = (res, w2)"
    by (cases "add_role_to_user_try e (''/iam/users/'' @ user @ ''/roles/'' @ role) ?w")
  from add_role_to_user_try_requests [of e "''/iam/users/'' @ user @ ''/roles/'' @ role" ?w] t
  have "requests (trace w2) = requests (trace w) @ [(''PUT'', ''/iam/users/'' @ user @ ''/roles/'' @ role)]"
    and "created (trace w2) = created (trace w) @ [(''PUT'', ''/iam/users/'' @ user @ ''/roles/'' @ role)]"
    by simp_all
  with t show ?thesis
    unfolding add_role_to_user_confirmed [OF assms]
    by (cases res) (auto simp: cerr_def)
qed

lemma remove_role_from_user_requests:
  assumes "confirms e w k"
  shows \<open>\<exists>r w'. remove_role_from_user e user role w = Some (r, w') \<and>
     requests (trace w') = requests (trace w) @ [(''DELETE'', ''/iam/users/'' @ user @ ''/roles/'' @ role)] \<and>
     created (trace w') = created (trace w) @ [(''DELETE'', ''/iam/users/'' @ user @ ''/roles/'' @ role)]\<close>
proof -
  let ?w = \<open>w\<lparr>cin_pos := cin_pos w + Suc k,
          trace := trace w @ prompts (''Remove role "'' @ role @ ''" from user "'' @ user @ ''"? '') (Suc k)
            @ [CreateCoap ''DELETE'' (''/iam/users/'' @ user @ ''/roles/'' @ role)]\<rparr>\<close>
  obtain res w2 where t: "remove_role_from_user_try e (''/iam/users/'' @ user @ ''/roles/'' @ role) ?w = (res, w2)"
    by (cases "remove_role_from_user_try e (''/iam/users/'' @ user @ ''/roles/'' @ role) ?w")
  from remove_role_from_user_try_requests [of e "''/iam/users/'' @ user @ ''/roles/'' @ role" ?w] t
  have "requests (trace w2) = requests (trace w) @ [(''DELETE'', ''/iam/users/'' @ user @ ''/roles/'' @ role)]"
    and "created (trace w2) = created (trace w) @ [(''DELETE'', ''/iam/users/'' @ user @ ''/roles/'' @ role)]"
    by simp_all
  with t show ?thesis
    unfolding remove_role_from_user_confirmed [OF assms]
    by (cases res) (auto simp: cerr_def)
qed

lemma delete_user_requests:
  assumes "confirms e w k"
  shows \<open>\<exists>r w'. delete_user e user w = Some (r, w') \<and>
     requests (trace w') = requests (trace w) @ [(''DELETE'', ''/iam/users/'' @ user)] \<and>
     created (trace w') = created (trace w) @ [(''DELETE'', ''/iam/users/'' @ user)]\<close>
proof -
  let ?w = \<open>w\<lparr>cin_pos := cin_pos w + Suc k,
          trace := trace w @ prompts (''Delete user "'' @ user @ ''"? '') (Suc k)
            @ [CreateCoap ''DELETE'' (''/iam/users/'' @ user)]\<rparr>\<close>
  obtain res w2 where t: "delete_user_try e (''/iam/users/'' @ user) ?w = (res, w2)"
    by (cases "delete_user_try e (''/iam/users/'' @ user) ?w")
  from delete_user_try_requests [of e "''/iam/users/'' @ user" ?w] t
  have "requests (trace w2) = requests (trace w) @ [(''DELETE'', ''/iam/users/'' @ user)]"
    and "created (trace w2) = created (trace w) @ [(''DELETE'', ''/iam/users/'' @ user)]"
    by simp_all
  with t show ?thesis
    unfolding delete_user_confirmed [OF assms]
    by (cases res) (auto simp: cerr_def)
qed


text \<open>An invocation that returns had an operator who confirmed or declined.\<close>

lemma yn_prompt_returns:
  assumes "yn_prompt e message w = Some r"
  shows "(\<exists>k. confirms e w k) \<or> (\<exists>k. declines e w k)"
proof -
  from assms obtain r' where "yn_loop e message (CHR 0x00) w = Some r'"
    by (auto simp: yn_prompt_def)
  then have "\<not> (\<forall>k. others e w k)" by (rule yn_loop_forever)
  with answer_cases [of e w] show ?thesis by blast
qed

lemma add_role_to_user_returns:
  assumes "add_role_to_user e user role w = Some (r, w')"
  shows "(\<exists>k. confirms e w k) \<or> (\<exists>k. declines e w k)"
proof -
  from assms obtain r' where
    \<open>yn_prompt e (''Add role "'' @ role @ ''" to user "'' @ user @ ''"? '') w = Some r'\<close>
    by (auto simp: add_role_to_user_def Let_def split: option.splits)
  then show ?thesis by (rule yn_prompt_returns)
qed

lemma remove_role_from_user_returns:
  assumes "remove_role_from_user e user role w = Some (r, w')"
  shows "(\<exists>k. confirms e w k) \<or> (\<exists>k. declines e w k)"
proof -
  from assms obtain r' where
    \<open>yn_prompt e (''Remove role "'' @ role @ ''" from user "'' @ user @ ''"? '') w = Some r'\<close>
    by (auto simp: remove_role_from_user_def Let_def split: option.splits)
  then show ?thesis by (rule yn_prompt_returns)
qed

lemma delete_user_returns:
  assumes "delete_user e user w = Some (r, w')"
  shows "(\<exists>k. confirms e w k) \<or> (\<exists>k. declines e w k)"
proof -
  from assms obtain r' where
    \<open>yn_prompt e (''Delete user "'' @ user @ ''"? '') w = Some r'\<close>
    by (auto simp: delete_user_def Let_def split: option.splits)
  then show ?thesis by (rule yn_prompt_returns)
qed

lemma declines_typed_n: "declines (scenario ''n'' code items) fresh 0"
  by (simp add: declines_def others_def scenario_def typed_def fresh_def)

lemma yn_prompt_typed_n:
  "yn_prompt (scenario ''n'' code items) message fresh =
     Some (False, \<lparr>cin_pos = 1, failbit = False, trace = [Cout (message @ '' [y/n]: '')]\<rparr>)"
proof -
  have "others (scenario ''n'' code items) fresh 0"
    by (simp add: others_def fresh_def)
  moreover have "stdin (scenario ''n'' code items) (cin_pos fresh + 0) = Some CHR ''n''"
    by (simp add: scenario_def typed_def fresh_def)
  ultimately show ?thesis
    using yn_prompt_no [of "scenario ''n'' code items" fresh 0 message]
    by (simp add: prompts_def fresh_def)
qed

text \<open>
  Claim C9 says that every invocation of each of the five operations performs exactly one
  request. An invocation of \<open>delete_user\<close> whose operator answers \<open>n\<close> performs none.
\<close>

theorem declined_delete_user_performs_no_request:
  \<open>delete_user (scenario ''n'' 202 []) ''bob'' fresh = Some (True,
     \<lparr>cin_pos = 1, failbit = False,
      trace = [Cout ''Delete user "bob"?  [y/n]: '', Cout ''Action cancelled.\<newline>'']\<rparr>) \<and>
   requests [Cout ''Delete user "bob"?  [y/n]: '', Cout ''Action cancelled.\<newline>''] = []\<close>
  by (simp add: delete_user_def yn_prompt_typed_n cout_def)

text \<open>
  Claim C9, amended. No invocation performs two or more requests. \<open>list_users\<close> and
  \<open>list_roles\<close> perform exactly one request in every invocation.
  \<open>add_role_to_user\<close>, \<open>remove_role_from_user\<close> and \<open>delete_user\<close> perform exactly one
  request when the operator confirms and none when the operator declines.
\<close>

theorem at_most_one_request:
  \<open>length (requests (trace (snd (list_users e w)))) = Suc (length (requests (trace w))) \<and>
   length (requests (trace (snd (list_roles e w)))) = Suc (length (requests (trace w))) \<and>
   (confirms e w k \<longrightarrow>
      (\<exists>r w'. add_role_to_user e user role w = Some (r, w') \<and>
         length (requests (trace w')) = Suc (length (requests (trace w)))) \<and>
      (\<exists>r w'. remove_role_from_user e user role w = Some (r, w') \<and>
         length (requests (trace w')) = Suc (length (requests (trace w)))) \<and>
      (\<exists>r w'. delete_user e user w = Some (r, w') \<and>
         length (requests (trace w')) = Suc (length (requests (trace w))))) \<and>
   (declines e w k \<longrightarrow>
      (\<exists>w'. add_role_to_user e user role w = Some (True, w') \<and>
         length (requests (trace w')) = length (requests (trace w))) \<and>
      (\<exists>w'. remove_role_from_user e user role w = Some (True, w') \<and>
         length (requests (trace w')) = length (requests (trace w))) \<and>
      (\<exists>w'. delete_user e user w = Some (True, w') \<and>
         length (requests (trace w')) = length (requests (trace w)))) \<and>
   (add_role_to_user e user role w = Some (r, w') \<longrightarrow>
      length (requests (trace w')) \<le> Suc (length (requests (trace w)))) \<and>
   (remove_role_from_user e user role w = Some (r, w') \<longrightarrow>
      length (requests (trace w')) \<le> Suc (length (requests (trace w)))) \<and>
   (delete_user e user w = Some (r, w') \<longrightarrow>
      length (requests (trace w')) \<le> Suc (length (requests (trace w))))\<close>
proof (intro conjI impI)
  show "length (requests (trace (snd (list_users e w)))) = Suc (length (requests (trace w)))"
    by (simp add: list_users_requests)
  show "length (requests (trace (snd (list_roles e w)))) = Suc (length (requests (trace w)))"
    by (simp add: list_roles_requests)
next
  assume c: "confirms e w k"
  from add_role_to_user_requests [OF c, of user role]
  show "\<exists>r w'. add_role_to_user e user role w = Some (r, w') \<and>
         length (requests (trace w')) = Suc (length (requests (trace w)))"
    by auto
  from remove_role_from_user_requests [OF c, of user role]
  show "\<exists>r w'. remove_role_from_user e user role w = Some (r, w') \<and>
         length (requests (trace w')) = Suc (length (requests (trace w)))"
    by auto
  from delete_user_requests [OF c, of user]
  show "\<exists>r w'. delete_user e user w = Some (r, w') \<and>
         length (requests (trace w')) = Suc (length (requests (trace w)))"
    by auto
next
  assume d: "declines e w k"
  from add_role_to_user_declined [OF d, of user role]
  show "\<exists>w'. add_role_to_user e user role w = Some (True, w') \<and>
         length (requests (trace w')) = length (requests (trace w))"
    by auto
  from remove_role_from_user_declined [OF d, of user role]
  show "\<exists>w'. remove_role_from_user e user role w = Some (True, w') \<and>
         length (requests (trace w')) = length (requests (trace w))"
    by auto
  from delete_user_declined [OF d, of user]
  show "\<exists>w'. delete_user e user w = Some (True, w') \<and>
         length (requests (trace w')) = length (requests (trace w))"
    by auto
next
  assume a: "add_role_to_user e user role w = Some (r, w')"
  from add_role_to_user_returns [OF a]
  show "length (requests (trace w')) \<le> Suc (length (requests (trace w)))"
  proof (elim disjE exE)
    fix j assume "confirms e w j"
    from add_role_to_user_requests [OF this, of user role] a show ?thesis by auto
  next
    fix j assume "declines e w j"
    from add_role_to_user_declined [OF this, of user role] a show ?thesis by auto
  qed
next
  assume a: "remove_role_from_user e user role w = Some (r, w')"
  from remove_role_from_user_returns [OF a]
  show "length (requests (trace w')) \<le> Suc (length (requests (trace w)))"
  proof (elim disjE exE)
    fix j assume "confirms e w j"
    from remove_role_from_user_requests [OF this, of user role] a show ?thesis by auto
  next
    fix j assume "declines e w j"
    from remove_role_from_user_declined [OF this, of user role] a show ?thesis by auto
  qed
next
  assume a: "delete_user e user w = Some (r, w')"
  from delete_user_returns [OF a]
  show "length (requests (trace w')) \<le> Suc (length (requests (trace w)))"
  proof (elim disjE exE)
    fix j assume "confirms e w j"
    from delete_user_requests [OF this, of user] a show ?thesis by auto
  next
    fix j assume "declines e w j"
    from delete_user_declined [OF this, of user] a show ?thesis by auto
  qed
qed

theorem at_most_one_request_witness:
  \<open>confirms (scenario ''y'' 201 []) fresh 0 \<and>
   (\<exists>r w'. add_role_to_user (scenario ''y'' 201 []) ''bob'' ''admin'' fresh = Some (r, w') \<and>
      length (requests (trace w')) = 1) \<and>
   (\<exists>r w'. remove_role_from_user (scenario ''y'' 201 []) ''bob'' ''admin'' fresh = Some (r, w') \<and>
      length (requests (trace w')) = 1) \<and>
   (\<exists>r w'. delete_user (scenario ''y'' 201 []) ''bob'' fresh = Some (r, w') \<and>
      length (requests (trace w')) = 1) \<and>
   declines (scenario ''n'' 201 []) fresh 0 \<and>
   (\<exists>w'. add_role_to_user (scenario ''n'' 201 []) ''bob'' ''admin'' fresh = Some (True, w') \<and>
      length (requests (trace w')) = 0) \<and>
   (\<exists>w'. remove_role_from_user (scenario ''n'' 201 []) ''bob'' ''admin'' fresh = Some (True, w') \<and>
      length (requests (trace w')) = 0) \<and>
   (\<exists>w'. delete_user (scenario ''n'' 201 []) ''bob'' fresh = Some (True, w') \<and>
      length (requests (trace w')) = 0)\<close>
proof -
  have c: "confirms (scenario ''y'' 201 []) fresh 0" by (rule confirms_typed_y)
  have d: "declines (scenario ''n'' 201 []) fresh 0" by (rule declines_typed_n)
  have t: "requests (trace fresh) = []" by (simp add: fresh_def)
  from at_most_one_request [of "scenario ''y'' 201 []" fresh 0 "''bob''" "''admin''"]
    at_most_one_request [of "scenario ''n'' 201 []" fresh 0 "''bob''" "''admin''"] c d t
  show ?thesis by simp
qed


text \<open>
  Claim C1 says that each operation sends its request with the method and path of the
  contract and that \<open>add_role_to_user\<close> sends exactly one \<open>PUT\<close>, for every user id and
  role id. When the operator answers \<open>n\<close>, \<open>add_role_to_user\<close> sends no \<open>PUT\<close>.
\<close>

theorem declined_add_role_sends_no_put:
  \<open>add_role_to_user (scenario ''n'' 201 []) ''bob'' ''admin'' fresh = Some (True,
     \<lparr>cin_pos = 1, failbit = False,
      trace = [Cout ''Add role "admin" to user "bob"?  [y/n]: '',
               Cout ''Action cancelled.\<newline>'']\<rparr>) \<and>
   requests [Cout ''Add role "admin" to user "bob"?  [y/n]: '',
             Cout ''Action cancelled.\<newline>''] = []\<close>
  by (simp add: add_role_to_user_def yn_prompt_typed_n cout_def)

text \<open>
  Claim C1, amended. \<open>list_users\<close> sends exactly one \<open>GET\<close> to \<open>/iam/users\<close> and
  \<open>list_roles\<close> exactly one \<open>GET\<close> to \<open>/iam/roles\<close>, in every invocation. When the
  operator confirms, \<open>add_role_to_user\<close> sends exactly one \<open>PUT\<close> to
  \<open>/iam/users/{user}/roles/{role}\<close>, \<open>remove_role_from_user\<close> exactly one \<open>DELETE\<close> to
  \<open>/iam/users/{user}/roles/{role}\<close> and \<open>delete_user\<close> exactly one \<open>DELETE\<close> to
  \<open>/iam/users/{user}\<close>, for every user id and role id.
\<close>

theorem requests_follow_contract:
  \<open>requests (trace (snd (list_users e w))) = requests (trace w) @ [(''GET'', ''/iam/users'')] \<and>
   requests (trace (snd (list_roles e w))) = requests (trace w) @ [(''GET'', ''/iam/roles'')] \<and>
   (confirms e w k \<longrightarrow>
      (\<exists>r w'. add_role_to_user e user role w = Some (r, w') \<and>
         requests (trace w') =
           requests (trace w) @ [(''PUT'', ''/iam/users/'' @ user @ ''/roles/'' @ role)]) \<and>
      (\<exists>r w'. remove_role_from_user e user role w = Some (r, w') \<and>
         requests (trace w') =
           requests (trace w) @ [(''DELETE'', ''/iam/users/'' @ user @ ''/roles/'' @ role)]) \<and>
      (\<exists>r w'. delete_user e user w = Some (r, w') \<and>
         requests (trace w') = requests (trace w) @ [(''DELETE'', ''/iam/users/'' @ user)]))\<close>
proof (intro conjI impI)
  show "requests (trace (snd (list_users e w))) =
          requests (trace w) @ [(''GET'', ''/iam/users'')]"
    by (simp add: list_users_requests)
  show "requests (trace (snd (list_roles e w))) =
          requests (trace w) @ [(''GET'', ''/iam/roles'')]"
    by (simp add: list_roles_requests)
next
  assume c: "confirms e w k"
  from add_role_to_user_requests [OF c, of user role]
  show "\<exists>r w'. add_role_to_user e user role w = Some (r, w') \<and>
         requests (trace w') =
           requests (trace w) @ [(''PUT'', ''/iam/users/'' @ user @ ''/roles/'' @ role)]"
    by blast
  from remove_role_from_user_requests [OF c, of user role]
  show "\<exists>r w'. remove_role_from_user e user role w = Some (r, w') \<and>
         requests (trace w') =
           requests (trace w) @ [(''DELETE'', ''/iam/users/'' @ user @ ''/roles/'' @ role)]"
    by blast
  from delete_user_requests [OF c, of user]
  show "\<exists>r w'. delete_user e user w = Some (r, w') \<and>
         requests (trace w') = requests (trace w) @ [(''DELETE'', ''/iam/users/'' @ user)]"
    by blast
qed

theorem requests_follow_contract_witness:
  \<open>confirms (scenario ''y'' 201 []) fresh 0 \<and>
   requests (trace (snd (list_users (scenario ''y'' 201 []) fresh))) =
     [(''GET'', ''/iam/users'')] \<and>
   requests (trace (snd (list_roles (scenario ''y'' 201 []) fresh))) =
     [(''GET'', ''/iam/roles'')] \<and>
   (\<exists>r w'. add_role_to_user (scenario ''y'' 201 []) ''bob'' ''admin'' fresh = Some (r, w') \<and>
      requests (trace w') = [(''PUT'', ''/iam/users/bob/roles/admin'')]) \<and>
   (\<exists>r w'. remove_role_from_user (scenario ''y'' 201 []) ''bob'' ''admin'' fresh = Some (r, w') \<and>
      requests (trace w') = [(''DELETE'', ''/iam/users/bob/roles/admin'')]) \<and>
   (\<exists>r w'. delete_user (scenario ''y'' 201 []) ''bob'' fresh = Some (r, w') \<and>
      requests (trace w') = [(''DELETE'', ''/iam/users/bob'')])\<close>
proof -
  have c: "confirms (scenario ''y'' 201 []) fresh 0" by (rule confirms_typed_y)
  have t: "requests (trace fresh) = []" by (simp add: fresh_def)
  from requests_follow_contract [of "scenario ''y'' 201 []" fresh 0 "''bob''" "''admin''"] c t
  show ?thesis by simp
qed

text \<open>
  Claim C10. The path of the request is the plain concatenation of the fixed prefixes and
  the strings the operator gave, which are neither checked nor escaped: for every user and
  role, the empty string and strings with a slash included, the request object that
  \<open>add_role_to_user\<close> and \<open>remove_role_from_user\<close> create and execute has the path
  \<open>"/iam/users/" + user + "/roles/" + role\<close>, and the one of \<open>delete_user\<close> has the path
  \<open>"/iam/users/" + user\<close>. An invocation creates nothing else: what it creates and
  what it executes is that one request, or nothing.
\<close>

theorem path_is_concatenation:
  \<open>(confirms e w k \<longrightarrow>
      (\<exists>r w'. add_role_to_user e user role w = Some (r, w') \<and>
         map snd (created (trace w')) =
           map snd (created (trace w)) @ [''/iam/users/'' @ user @ ''/roles/'' @ role] \<and>
         map snd (requests (trace w')) =
           map snd (requests (trace w)) @ [''/iam/users/'' @ user @ ''/roles/'' @ role]) \<and>
      (\<exists>r w'. remove_role_from_user e user role w = Some (r, w') \<and>
         map snd (created (trace w')) =
           map snd (created (trace w)) @ [''/iam/users/'' @ user @ ''/roles/'' @ role] \<and>
         map snd (requests (trace w')) =
           map snd (requests (trace w)) @ [''/iam/users/'' @ user @ ''/roles/'' @ role]) \<and>
      (\<exists>r w'. delete_user e user w = Some (r, w') \<and>
         map snd (created (trace w')) =
           map snd (created (trace w)) @ [''/iam/users/'' @ user] \<and>
         map snd (requests (trace w')) =
           map snd (requests (trace w)) @ [''/iam/users/'' @ user])) \<and>
   (add_role_to_user e user role w = Some (r, w') \<longrightarrow>
      (\<exists>ps. map snd (created (trace w')) = map snd (created (trace w)) @ ps \<and>
            map snd (requests (trace w')) = map snd (requests (trace w)) @ ps \<and>
            (ps = [] \<or> ps = [''/iam/users/'' @ user @ ''/roles/'' @ role]))) \<and>
   (remove_role_from_user e user role w = Some (r, w') \<longrightarrow>
      (\<exists>ps. map snd (created (trace w')) = map snd (created (trace w)) @ ps \<and>
            map snd (requests (trace w')) = map snd (requests (trace w)) @ ps \<and>
            (ps = [] \<or> ps = [''/iam/users/'' @ user @ ''/roles/'' @ role]))) \<and>
   (delete_user e user w = Some (r, w') \<longrightarrow>
      (\<exists>ps. map snd (created (trace w')) = map snd (created (trace w)) @ ps \<and>
            map snd (requests (trace w')) = map snd (requests (trace w)) @ ps \<and>
            (ps = [] \<or> ps = [''/iam/users/'' @ user])))\<close>
proof (intro conjI impI)
  assume c: "confirms e w k"
  from add_role_to_user_requests [OF c, of user role]
  show "\<exists>r w'. add_role_to_user e user role w = Some (r, w') \<and>
         map snd (created (trace w')) =
           map snd (created (trace w)) @ [''/iam/users/'' @ user @ ''/roles/'' @ role] \<and>
         map snd (requests (trace w')) =
           map snd (requests (trace w)) @ [''/iam/users/'' @ user @ ''/roles/'' @ role]"
    by auto
  from remove_role_from_user_requests [OF c, of user role]
  show "\<exists>r w'. remove_role_from_user e user role w = Some (r, w') \<and>
         map snd (created (trace w')) =
           map snd (created (trace w)) @ [''/iam/users/'' @ user @ ''/roles/'' @ role] \<and>
         map snd (requests (trace w')) =
           map snd (requests (trace w)) @ [''/iam/users/'' @ user @ ''/roles/'' @ role]"
    by auto
  from delete_user_requests [OF c, of user]
  show "\<exists>r w'. delete_user e user w = Some (r, w') \<and>
         map snd (created (trace w')) =
           map snd (created (trace w)) @ [''/iam/users/'' @ user] \<and>
         map snd (requests (trace w')) =
           map snd (requests (trace w)) @ [''/iam/users/'' @ user]"
    by auto
next
  assume a: "add_role_to_user e user role w = Some (r, w')"
  from add_role_to_user_returns [OF a]
  show "\<exists>ps. map snd (created (trace w')) = map snd (created (trace w)) @ ps \<and>
            map snd (requests (trace w')) = map snd (requests (trace w)) @ ps \<and>
            (ps = [] \<or> ps = [''/iam/users/'' @ user @ ''/roles/'' @ role])"
  proof (elim disjE exE)
    fix j assume "confirms e w j"
    from add_role_to_user_requests [OF this, of user role] a show ?thesis by auto
  next
    fix j assume "declines e w j"
    from add_role_to_user_declined [OF this, of user role] a show ?thesis by auto
  qed
next
  assume a: "remove_role_from_user e user role w = Some (r, w')"
  from remove_role_from_user_returns [OF a]
  show "\<exists>ps. map snd (created (trace w')) = map snd (created (trace w)) @ ps \<and>
            map snd (requests (trace w')) = map snd (requests (trace w)) @ ps \<and>
            (ps = [] \<or> ps = [''/iam/users/'' @ user @ ''/roles/'' @ role])"
  proof (elim disjE exE)
    fix j assume "confirms e w j"
    from remove_role_from_user_requests [OF this, of user role] a show ?thesis by auto
  next
    fix j assume "declines e w j"
    from remove_role_from_user_declined [OF this, of user role] a show ?thesis by auto
  qed
next
  assume a: "delete_user e user w = Some (r, w')"
  from delete_user_returns [OF a]
  show "\<exists>ps. map snd (created (trace w')) = map snd (created (trace w)) @ ps \<and>
            map snd (requests (trace w')) = map snd (requests (trace w)) @ ps \<and>
            (ps = [] \<or> ps = [''/iam/users/'' @ user])"
  proof (elim disjE exE)
    fix j assume "confirms e w j"
    from delete_user_requests [OF this, of user] a show ?thesis by auto
  next
    fix j assume "declines e w j"
    from delete_user_declined [OF this, of user] a show ?thesis by auto
  qed
qed

theorem path_is_concatenation_witness:
  \<open>confirms (scenario ''y'' 201 []) fresh 0 \<and>
   (\<exists>r w'. add_role_to_user (scenario ''y'' 201 []) [] ''a/b'' fresh = Some (r, w') \<and>
      map snd (created (trace w')) = [''/iam/users//roles/a/b''] \<and>
      map snd (requests (trace w')) = [''/iam/users//roles/a/b'']) \<and>
   (\<exists>r w'. remove_role_from_user (scenario ''y'' 201 []) [] ''a/b'' fresh = Some (r, w') \<and>
      map snd (created (trace w')) = [''/iam/users//roles/a/b''] \<and>
      map snd (requests (trace w')) = [''/iam/users//roles/a/b'']) \<and>
   (\<exists>r w'. delete_user (scenario ''y'' 201 []) [] fresh = Some (r, w') \<and>
      map snd (created (trace w')) = [''/iam/users/''] \<and>
      map snd (requests (trace w')) = [''/iam/users/''])\<close>
proof -
  have c: "confirms (scenario ''y'' 201 []) fresh 0" by (rule confirms_typed_y)
  have t: "requests (trace fresh) = []" "created (trace fresh) = []"
    by (simp_all add: fresh_def)
  from path_is_concatenation [of "scenario ''y'' 201 []" fresh 0 "[]" "''a/b''"] c t
  show ?thesis by simp
qed

end
